theory Spec2Isabelle
  imports Main "HOL-Library.Word"
begin

section \<open>Data model of \<open>src/Ethernet.cpp\<close>\<close>

type_synonym u8 = "8 word"
type_synonym u16 = "16 word"
type_synonym u32 = "32 word"

text \<open>
  The address value type: four octets. \<open>IPAddress_update a i v\<close> is the assignment
  \<open>a[i] = v\<close>; the source only ever writes index 3, an index above 3 is outside the
  object in C++ and is left without effect here.
\<close>

datatype IPAddress = IPAddress u8 u8 u8 u8

definition IPAddress_update :: "IPAddress \<Rightarrow> nat \<Rightarrow> u8 \<Rightarrow> IPAddress" where
  "IPAddress_update a i v =
     (case a of IPAddress b0 b1 b2 b3 \<Rightarrow>
        if i = 0 then IPAddress v b1 b2 b3
        else if i = 1 then IPAddress b0 v b2 b3
        else if i = 2 then IPAddress b0 b1 v b3
        else if i = 3 then IPAddress b0 b1 b2 v
        else a)"

text \<open>A hardware address is the byte buffer behind the \<open>uint8_t *mac\<close> argument.\<close>

type_synonym mac = "u8 list"

datatype EthernetLinkStatus = Unknown | LinkON | LinkOFF

datatype EthernetHardwareStatus =
  EthernetNoHardware | EthernetW5100 | EthernetW5200 | EthernetW5500

datatype W5100Linkstatus = UNKNOWN | LINK_ON | LINK_OFF

text \<open>
  Modelled from the spec: the chip driver \<open>W5100Class\<close> (\<open>utility/w5100.h\<close>) is not
  part of the sources. Its registers are the hardware address, the local, gateway and
  subnet addresses, the retransmission time and count, and the values its identity and
  link queries answer; a setter stores its argument and a getter reads it back.
\<close>

record W5100Class =
  shar :: mac
  sipr :: IPAddress
  gar :: IPAddress
  subr :: IPAddress
  rtr :: u16
  rcr :: u8
  chip :: u8
  link :: W5100Linkstatus

text \<open>
  Modelled from the spec: the lease negotiator \<open>DhcpClass\<close> (\<open>Dhcp.h\<close>) is not part of
  the sources. The manager observes it through the four addresses of the negotiated set.
\<close>

record DhcpClass =
  dhcpLocalIp :: IPAddress
  dhcpGatewayIp :: IPAddress
  dhcpSubnetMask :: IPAddress
  dhcpDnsServerIp :: IPAddress

text \<open>
  Every call that the functions of \<open>Ethernet.cpp\<close> make to a collaborator is recorded,
  in program order: the bus (\<open>_spibus\<close>, always with the profile
  \<open>SPI_ETHERNET_SETTINGS\<close>), the chip driver (\<open>_w5100\<close>), the lease negotiator
  (\<open>_dhcp\<close>, with its allocation and deallocation), the clock and the port
  randomisation. Calls that a collaborator makes inside its own body are not recorded.
\<close>

datatype event =
    SPI_beginTransaction
  | SPI_endTransaction
  | Chip_init
  | Chip_setMACAddress mac
  | Chip_setIPAddress IPAddress
  | Chip_setGatewayIp IPAddress
  | Chip_setSubnetMask IPAddress
  | Chip_getMACAddress
  | Chip_getIPAddress
  | Chip_getGatewayIp
  | Chip_getSubnetMask
  | Chip_setRetransmissionTime u16
  | Chip_setRetransmissionCount u8
  | Chip_getLinkStatus
  | Chip_getChip
  | Dhcp_new nat
  | Dhcp_delete nat
  | Dhcp_beginWithDHCP mac u32 u32
  | Dhcp_checkLease
  | Dhcp_getLocalIp
  | Dhcp_getGatewayIp
  | Dhcp_getSubnetMask
  | Dhcp_getDnsServerIp
  | Sys_micros
  | Eth_socketPortRand u32

text \<open>
  The manager object. \<open>dhcp\<close> is the pointer \<open>_dhcp\<close>: \<open>None\<close> is the null pointer,
  \<open>Some (p, d)\<close> the instance allocated at address \<open>p\<close> in state \<open>d\<close>. \<open>heap_next\<close>
  is the allocator: the address the next \<open>new\<close> returns. \<open>calls\<close> is the record of
  collaborator calls made so far.
\<close>

record EthernetClass =
  dnsServerAddress :: IPAddress
  dhcp :: "(nat \<times> DhcpClass) option"
  w5100 :: W5100Class
  calls :: "event list"
  heap_next :: nat

text \<open>
  What the collaborators answer. Their bodies are outside the sources, so each is a
  parameter: chip initialisation answers success or failure and may change the chip;
  a fresh negotiator starts in some state; negotiation and the lease check answer an
  integer code and may change the negotiator and the chip; the clock answers a reading.
  The three lease-check codes named in \<open>maintain\<close> are macros of \<open>Dhcp.h\<close>, taken as
  parameters as well.
\<close>

record extern =
  ext_init :: "W5100Class \<Rightarrow> bool \<times> W5100Class"
  ext_new_DhcpClass :: DhcpClass
  ext_beginWithDHCP ::
    "mac \<Rightarrow> u32 \<Rightarrow> u32 \<Rightarrow> DhcpClass \<Rightarrow> W5100Class \<Rightarrow> int \<times> DhcpClass \<times> W5100Class"
  ext_checkLease :: "DhcpClass \<Rightarrow> W5100Class \<Rightarrow> int \<times> DhcpClass \<times> W5100Class"
  ext_micros :: u32
  DHCP_CHECK_NONE :: int
  DHCP_CHECK_RENEW_OK :: int
  DHCP_CHECK_REBIND_OK :: int

section \<open>Calls to the collaborators\<close>

definition record_call :: "event \<Rightarrow> EthernetClass \<Rightarrow> EthernetClass" where
  "record_call e s = s\<lparr>calls := calls s @ [e]\<rparr>"

definition spi_beginTransaction :: "EthernetClass \<Rightarrow> EthernetClass" where
  "spi_beginTransaction s = record_call SPI_beginTransaction s"

definition spi_endTransaction :: "EthernetClass \<Rightarrow> EthernetClass" where
  "spi_endTransaction s = record_call SPI_endTransaction s"

definition w5100_init :: "extern \<Rightarrow> EthernetClass \<Rightarrow> bool \<times> EthernetClass" where
  "w5100_init x s =
     (case ext_init x (w5100 s) of
        (ok, c) \<Rightarrow> (ok, record_call Chip_init (s\<lparr>w5100 := c\<rparr>)))"

definition w5100_setMACAddress :: "mac \<Rightarrow> EthernetClass \<Rightarrow> EthernetClass" where
  "w5100_setMACAddress m s =
     record_call (Chip_setMACAddress m) (s\<lparr>w5100 := (w5100 s)\<lparr>shar := m\<rparr>\<rparr>)"

definition w5100_setIPAddress :: "IPAddress \<Rightarrow> EthernetClass \<Rightarrow> EthernetClass" where
  "w5100_setIPAddress a s =
     record_call (Chip_setIPAddress a) (s\<lparr>w5100 := (w5100 s)\<lparr>sipr := a\<rparr>\<rparr>)"

definition w5100_setGatewayIp :: "IPAddress \<Rightarrow> EthernetClass \<Rightarrow> EthernetClass" where
  "w5100_setGatewayIp a s =
     record_call (Chip_setGatewayIp a) (s\<lparr>w5100 := (w5100 s)\<lparr>gar := a\<rparr>\<rparr>)"

definition w5100_setSubnetMask :: "IPAddress \<Rightarrow> EthernetClass \<Rightarrow> EthernetClass" where
  "w5100_setSubnetMask a s =
     record_call (Chip_setSubnetMask a) (s\<lparr>w5100 := (w5100 s)\<lparr>subr := a\<rparr>\<rparr>)"

definition w5100_setRetransmissionTime :: "u16 \<Rightarrow> EthernetClass \<Rightarrow> EthernetClass" where
  "w5100_setRetransmissionTime t s =
     record_call (Chip_setRetransmissionTime t) (s\<lparr>w5100 := (w5100 s)\<lparr>rtr := t\<rparr>\<rparr>)"

definition w5100_setRetransmissionCount :: "u8 \<Rightarrow> EthernetClass \<Rightarrow> EthernetClass" where
  "w5100_setRetransmissionCount n s =
     record_call (Chip_setRetransmissionCount n) (s\<lparr>w5100 := (w5100 s)\<lparr>rcr := n\<rparr>\<rparr>)"

definition w5100_getMACAddress :: "EthernetClass \<Rightarrow> mac \<times> EthernetClass" where
  "w5100_getMACAddress s = (shar (w5100 s), record_call Chip_getMACAddress s)"

definition w5100_getIPAddress :: "EthernetClass \<Rightarrow> IPAddress \<times> EthernetClass" where
  "w5100_getIPAddress s = (sipr (w5100 s), record_call Chip_getIPAddress s)"

definition w5100_getGatewayIp :: "EthernetClass \<Rightarrow> IPAddress \<times> EthernetClass" where
  "w5100_getGatewayIp s = (gar (w5100 s), record_call Chip_getGatewayIp s)"

definition w5100_getSubnetMask :: "EthernetClass \<Rightarrow> IPAddress \<times> EthernetClass" where
  "w5100_getSubnetMask s = (subr (w5100 s), record_call Chip_getSubnetMask s)"

definition w5100_getLinkStatus :: "EthernetClass \<Rightarrow> W5100Linkstatus \<times> EthernetClass" where
  "w5100_getLinkStatus s = (link (w5100 s), record_call Chip_getLinkStatus s)"

definition w5100_getChip :: "EthernetClass \<Rightarrow> u8 \<times> EthernetClass" where
  "w5100_getChip s = (chip (w5100 s), record_call Chip_getChip s)"

text \<open>
  Calls through the pointer \<open>_dhcp\<close>, for an instance \<open>(p, d)\<close> that the caller has
  found behind it. The negotiator's new state is stored back behind the pointer.
\<close>

definition dhcp_beginWithDHCP ::
  "extern \<Rightarrow> nat \<Rightarrow> DhcpClass \<Rightarrow> mac \<Rightarrow> u32 \<Rightarrow> u32 \<Rightarrow> EthernetClass \<Rightarrow> int \<times> DhcpClass \<times> EthernetClass"
where
  "dhcp_beginWithDHCP x p d m timeout responseTimeout s =
     (case ext_beginWithDHCP x m timeout responseTimeout d (w5100 s) of
        (ret, d', c) \<Rightarrow>
          (ret, d', record_call (Dhcp_beginWithDHCP m timeout responseTimeout)
                      (s\<lparr>dhcp := Some (p, d'), w5100 := c\<rparr>)))"

definition dhcp_checkLease ::
  "extern \<Rightarrow> nat \<Rightarrow> DhcpClass \<Rightarrow> EthernetClass \<Rightarrow> int \<times> DhcpClass \<times> EthernetClass"
where
  "dhcp_checkLease x p d s =
     (case ext_checkLease x d (w5100 s) of
        (rc, d', c) \<Rightarrow>
          (rc, d', record_call Dhcp_checkLease (s\<lparr>dhcp := Some (p, d'), w5100 := c\<rparr>)))"

definition dhcp_getLocalIp :: "DhcpClass \<Rightarrow> EthernetClass \<Rightarrow> IPAddress \<times> EthernetClass" where
  "dhcp_getLocalIp d s = (dhcpLocalIp d, record_call Dhcp_getLocalIp s)"

definition dhcp_getGatewayIp :: "DhcpClass \<Rightarrow> EthernetClass \<Rightarrow> IPAddress \<times> EthernetClass" where
  "dhcp_getGatewayIp d s = (dhcpGatewayIp d, record_call Dhcp_getGatewayIp s)"

definition dhcp_getSubnetMask :: "DhcpClass \<Rightarrow> EthernetClass \<Rightarrow> IPAddress \<times> EthernetClass" where
  "dhcp_getSubnetMask d s = (dhcpSubnetMask d, record_call Dhcp_getSubnetMask s)"

definition dhcp_getDnsServerIp :: "DhcpClass \<Rightarrow> EthernetClass \<Rightarrow> IPAddress \<times> EthernetClass" where
  "dhcp_getDnsServerIp d s = (dhcpDnsServerIp d, record_call Dhcp_getDnsServerIp s)"

definition socketPortRand :: "extern \<Rightarrow> EthernetClass \<Rightarrow> EthernetClass" where
  "socketPortRand x s =
     record_call (Eth_socketPortRand (ext_micros x)) (record_call Sys_micros s)"

section \<open>The functions of \<open>src/Ethernet.cpp\<close>\<close>

text \<open>The constructor: no negotiator, a zero DNS address, the chip as it is found.\<close>

definition EthernetClass_ctor :: "W5100Class \<Rightarrow> EthernetClass" where
  "EthernetClass_ctor c =
     \<lparr>dnsServerAddress = IPAddress 0 0 0 0, dhcp = None, w5100 = c, calls = [],
      heap_next = 0\<rparr>"

text \<open>The destructor ends the object: what remains is the record of calls.\<close>

definition EthernetClass_dtor :: "EthernetClass \<Rightarrow> event list" where
  "EthernetClass_dtor s =
     (case dhcp s of
        Some (p, d) \<Rightarrow> calls s @ [Dhcp_delete p]
      | None \<Rightarrow> calls s)"

text \<open>\<open>if (!_dhcp) _dhcp = new DhcpClass(*this);\<close> with the instance then found behind
  the pointer.\<close>

definition ensure_dhcp :: "extern \<Rightarrow> EthernetClass \<Rightarrow> nat \<times> DhcpClass \<times> EthernetClass" where
  "ensure_dhcp x s =
     (case dhcp s of
        None \<Rightarrow>
          (heap_next s, ext_new_DhcpClass x,
           record_call (Dhcp_new (heap_next s))
             (s\<lparr>dhcp := Some (heap_next s, ext_new_DhcpClass x),
                heap_next := Suc (heap_next s)\<rparr>))
      | Some (p, d) \<Rightarrow> (p, d, s))"

text \<open>\<open>int begin(uint8_t *mac, unsigned long timeout, unsigned long responseTimeout)\<close>\<close>

definition begin_dhcp ::
  "extern \<Rightarrow> mac \<Rightarrow> u32 \<Rightarrow> u32 \<Rightarrow> EthernetClass \<Rightarrow> int \<times> EthernetClass"
where
  "begin_dhcp x m timeout responseTimeout s =
     (let (p, d, s) = ensure_dhcp x s;
          (ok, s) = w5100_init x s
      in if \<not> ok then (0, s)
         else
           let s = spi_beginTransaction s;
               s = w5100_setMACAddress m s;
               s = w5100_setIPAddress (IPAddress 0 0 0 0) s;
               s = spi_endTransaction s;
               (ret, d, s) = dhcp_beginWithDHCP x p d m timeout responseTimeout s
           in if ret = 1 then
                let s = spi_beginTransaction s;
                    (a, s) = dhcp_getLocalIp d s;
                    s = w5100_setIPAddress a s;
                    (a, s) = dhcp_getGatewayIp d s;
                    s = w5100_setGatewayIp a s;
                    (a, s) = dhcp_getSubnetMask d s;
                    s = w5100_setSubnetMask a s;
                    s = spi_endTransaction s;
                    (a, s) = dhcp_getDnsServerIp d s;
                    s = s\<lparr>dnsServerAddress := a\<rparr>;
                    s = socketPortRand x s
                in (ret, s)
              else (ret, s))"

text \<open>\<open>void begin(uint8_t *mac, IPAddress ip, IPAddress dns, IPAddress gateway,
  IPAddress subnet)\<close>. The three preprocessor branches differ only in how they reach
  the raw bytes of an address.\<close>

definition begin_subnet ::
  "extern \<Rightarrow> mac \<Rightarrow> IPAddress \<Rightarrow> IPAddress \<Rightarrow> IPAddress \<Rightarrow> IPAddress \<Rightarrow> EthernetClass \<Rightarrow> EthernetClass"
where
  "begin_subnet x m ip dns gateway subnet s =
     (let (ok, s) = w5100_init x s
      in if \<not> ok then s
         else
           let s = spi_beginTransaction s;
               s = w5100_setMACAddress m s;
               s = w5100_setIPAddress ip s;
               s = w5100_setGatewayIp gateway s;
               s = w5100_setSubnetMask subnet s;
               s = spi_endTransaction s
           in s\<lparr>dnsServerAddress := dns\<rparr>)"

text \<open>\<open>void begin(uint8_t *mac, IPAddress ip, IPAddress dns, IPAddress gateway)\<close>\<close>

definition begin_gateway ::
  "extern \<Rightarrow> mac \<Rightarrow> IPAddress \<Rightarrow> IPAddress \<Rightarrow> IPAddress \<Rightarrow> EthernetClass \<Rightarrow> EthernetClass"
where
  "begin_gateway x m ip dns gateway s =
     (let subnet = IPAddress 255 255 255 0
      in begin_subnet x m ip dns gateway subnet s)"

text \<open>\<open>void begin(uint8_t *mac, IPAddress ip, IPAddress dns)\<close>\<close>

definition begin_dns ::
  "extern \<Rightarrow> mac \<Rightarrow> IPAddress \<Rightarrow> IPAddress \<Rightarrow> EthernetClass \<Rightarrow> EthernetClass"
where
  "begin_dns x m ip dns s =
     (let gateway = ip;
          gateway = IPAddress_update gateway 3 1
      in begin_gateway x m ip dns gateway s)"

text \<open>\<open>void begin(uint8_t *mac, IPAddress ip)\<close>\<close>

definition begin_ip :: "extern \<Rightarrow> mac \<Rightarrow> IPAddress \<Rightarrow> EthernetClass \<Rightarrow> EthernetClass" where
  "begin_ip x m ip s =
     (let dns = ip;
          dns = IPAddress_update dns 3 1
      in begin_dns x m ip dns s)"

text \<open>\<open>linkStatus()\<close>. The \<open>default\<close> label is reached by no value of the enumeration.\<close>

definition linkStatus :: "EthernetClass \<Rightarrow> EthernetLinkStatus \<times> EthernetClass" where
  "linkStatus s =
     (let (l, s) = w5100_getLinkStatus s
      in (case l of UNKNOWN \<Rightarrow> Unknown | LINK_ON \<Rightarrow> LinkON | LINK_OFF \<Rightarrow> LinkOFF, s))"

text \<open>The \<open>switch\<close> of \<open>hardwareStatus()\<close>, on the identity code as an integer: the
  labels are the decimal literals 51, 52 and 55.\<close>

definition hardwareStatus_switch :: "int \<Rightarrow> EthernetHardwareStatus" where
  "hardwareStatus_switch c =
     (if c = 51 then EthernetW5100
      else if c = 52 then EthernetW5200
      else if c = 55 then EthernetW5500
      else EthernetNoHardware)"

definition hardwareStatus :: "EthernetClass \<Rightarrow> EthernetHardwareStatus \<times> EthernetClass" where
  "hardwareStatus s =
     (let (c, s) = w5100_getChip s
      in (hardwareStatus_switch (uint c), s))"

text \<open>\<open>int maintain()\<close>\<close>

definition maintain :: "extern \<Rightarrow> EthernetClass \<Rightarrow> int \<times> EthernetClass" where
  "maintain x s =
     (let rc = DHCP_CHECK_NONE x
      in case dhcp s of
           None \<Rightarrow> (rc, s)
         | Some (p, d) \<Rightarrow>
             let (rc, d, s) = dhcp_checkLease x p d s
             in if rc = DHCP_CHECK_NONE x then (rc, s)
                else if rc = DHCP_CHECK_RENEW_OK x \<or> rc = DHCP_CHECK_REBIND_OK x then
                  let s = spi_beginTransaction s;
                      (a, s) = dhcp_getLocalIp d s;
                      s = w5100_setIPAddress a s;
                      (a, s) = dhcp_getGatewayIp d s;
                      s = w5100_setGatewayIp a s;
                      (a, s) = dhcp_getSubnetMask d s;
                      s = w5100_setSubnetMask a s;
                      s = spi_endTransaction s;
                      (a, s) = dhcp_getDnsServerIp d s;
                      s = s\<lparr>dnsServerAddress := a\<rparr>
                  in (rc, s)
                else (rc, s))"

text \<open>The accessors. \<open>MACAddress\<close> answers through its buffer argument.\<close>

definition MACAddress :: "EthernetClass \<Rightarrow> mac \<times> EthernetClass" where
  "MACAddress s =
     (let s = spi_beginTransaction s;
          (mac_address, s) = w5100_getMACAddress s;
          s = spi_endTransaction s
      in (mac_address, s))"

definition localIP :: "EthernetClass \<Rightarrow> IPAddress \<times> EthernetClass" where
  "localIP s =
     (let s = spi_beginTransaction s;
          (ret, s) = w5100_getIPAddress s;
          s = spi_endTransaction s
      in (ret, s))"

definition subnetMask :: "EthernetClass \<Rightarrow> IPAddress \<times> EthernetClass" where
  "subnetMask s =
     (let s = spi_beginTransaction s;
          (ret, s) = w5100_getSubnetMask s;
          s = spi_endTransaction s
      in (ret, s))"

definition gatewayIP :: "EthernetClass \<Rightarrow> IPAddress \<times> EthernetClass" where
  "gatewayIP s =
     (let s = spi_beginTransaction s;
          (ret, s) = w5100_getGatewayIp s;
          s = spi_endTransaction s
      in (ret, s))"

definition setMACAddress :: "mac \<Rightarrow> EthernetClass \<Rightarrow> EthernetClass" where
  "setMACAddress mac_address s =
     (let s = spi_beginTransaction s;
          s = w5100_setMACAddress mac_address s;
          s = spi_endTransaction s
      in s)"

definition setLocalIP :: "IPAddress \<Rightarrow> EthernetClass \<Rightarrow> EthernetClass" where
  "setLocalIP local_ip s =
     (let s = spi_beginTransaction s;
          ip = local_ip;
          s = w5100_setIPAddress ip s;
          s = spi_endTransaction s
      in s)"

definition setSubnetMask :: "IPAddress \<Rightarrow> EthernetClass \<Rightarrow> EthernetClass" where
  "setSubnetMask subnet s =
     (let s = spi_beginTransaction s;
          ip = subnet;
          s = w5100_setSubnetMask ip s;
          s = spi_endTransaction s
      in s)"

definition setGatewayIP :: "IPAddress \<Rightarrow> EthernetClass \<Rightarrow> EthernetClass" where
  "setGatewayIP gateway s =
     (let s = spi_beginTransaction s;
          ip = gateway;
          s = w5100_setGatewayIp ip s;
          s = spi_endTransaction s
      in s)"

text \<open>\<open>setRetransmissionTimeout(uint16_t milliseconds)\<close>: the product is the argument
  of a 16-bit parameter, so it is taken modulo \<open>2 ^ 16\<close>.\<close>

definition setRetransmissionTimeout :: "u16 \<Rightarrow> EthernetClass \<Rightarrow> EthernetClass" where
  "setRetransmissionTimeout milliseconds s =
     (let milliseconds = (if milliseconds > 6553 then 6553 else milliseconds);
          s = spi_beginTransaction s;
          s = w5100_setRetransmissionTime (milliseconds * 10) s;
          s = spi_endTransaction s
      in s)"

definition setRetransmissionCount :: "u8 \<Rightarrow> EthernetClass \<Rightarrow> EthernetClass" where
  "setRetransmissionCount num s =
     (let s = spi_beginTransaction s;
          s = w5100_setRetransmissionCount num s;
          s = spi_endTransaction s
      in s)"

section \<open>Sequences of calls\<close>

text \<open>The public member functions, as an application may call them one after another.
  The value a call returns is dropped by \<open>invoke\<close>; the object goes on to the next call.\<close>

datatype member_call =
    Call_begin_dhcp extern mac u32 u32
  | Call_begin_ip extern mac IPAddress
  | Call_begin_dns extern mac IPAddress IPAddress
  | Call_begin_gateway extern mac IPAddress IPAddress IPAddress
  | Call_begin_subnet extern mac IPAddress IPAddress IPAddress IPAddress
  | Call_linkStatus
  | Call_hardwareStatus
  | Call_maintain extern
  | Call_MACAddress
  | Call_localIP
  | Call_subnetMask
  | Call_gatewayIP
  | Call_setMACAddress mac
  | Call_setLocalIP IPAddress
  | Call_setSubnetMask IPAddress
  | Call_setGatewayIP IPAddress
  | Call_setRetransmissionTimeout u16
  | Call_setRetransmissionCount u8

fun invoke :: "member_call \<Rightarrow> EthernetClass \<Rightarrow> EthernetClass" where
  "invoke (Call_begin_dhcp x m t r) s = snd (begin_dhcp x m t r s)"
| "invoke (Call_begin_ip x m ip) s = begin_ip x m ip s"
| "invoke (Call_begin_dns x m ip dns) s = begin_dns x m ip dns s"
| "invoke (Call_begin_gateway x m ip dns gw) s = begin_gateway x m ip dns gw s"
| "invoke (Call_begin_subnet x m ip dns gw sn) s = begin_subnet x m ip dns gw sn s"
| "invoke Call_linkStatus s = snd (linkStatus s)"
| "invoke Call_hardwareStatus s = snd (hardwareStatus s)"
| "invoke (Call_maintain x) s = snd (maintain x s)"
| "invoke Call_MACAddress s = snd (MACAddress s)"
| "invoke Call_localIP s = snd (localIP s)"
| "invoke Call_subnetMask s = snd (subnetMask s)"
| "invoke Call_gatewayIP s = snd (gatewayIP s)"
| "invoke (Call_setMACAddress m) s = setMACAddress m s"
| "invoke (Call_setLocalIP a) s = setLocalIP a s"
| "invoke (Call_setSubnetMask a) s = setSubnetMask a s"
| "invoke (Call_setGatewayIP a) s = setGatewayIP a s"
| "invoke (Call_setRetransmissionTimeout t) s = setRetransmissionTimeout t s"
| "invoke (Call_setRetransmissionCount n) s = setRetransmissionCount n s"

fun run :: "member_call list \<Rightarrow> EthernetClass \<Rightarrow> EthernetClass" where
  "run [] s = s"
| "run (m # ms) s = run ms (invoke m s)"

fun is_begin_dhcp :: "member_call \<Rightarrow> bool" where
  "is_begin_dhcp (Call_begin_dhcp x m t r) = True"
| "is_begin_dhcp _ = False"

fun is_maintain :: "member_call \<Rightarrow> bool" where
  "is_maintain (Call_maintain x) = True"
| "is_maintain _ = False"

section \<open>Reading a record of calls\<close>

text \<open>The calls a member function adds to the record: what follows the calls made
  before it.\<close>

definition added :: "EthernetClass \<Rightarrow> EthernetClass \<Rightarrow> event list" where
  "added s s' = drop (length (calls s)) (calls s')"

fun bus_delta :: "event \<Rightarrow> int" where
  "bus_delta SPI_beginTransaction = 1"
| "bus_delta SPI_endTransaction = - 1"
| "bus_delta _ = 0"

text \<open>The number of bus acquisitions left open by a sequence of calls.\<close>

definition bus_depth :: "event list \<Rightarrow> int" where
  "bus_depth es = sum_list (map bus_delta es)"

fun is_bus_call :: "event \<Rightarrow> bool" where
  "is_bus_call SPI_beginTransaction = True"
| "is_bus_call SPI_endTransaction = True"
| "is_bus_call _ = False"

fun is_chip_call :: "event \<Rightarrow> bool" where
  "is_chip_call Chip_init = True"
| "is_chip_call (Chip_setMACAddress m) = True"
| "is_chip_call (Chip_setIPAddress a) = True"
| "is_chip_call (Chip_setGatewayIp a) = True"
| "is_chip_call (Chip_setSubnetMask a) = True"
| "is_chip_call Chip_getMACAddress = True"
| "is_chip_call Chip_getIPAddress = True"
| "is_chip_call Chip_getGatewayIp = True"
| "is_chip_call Chip_getSubnetMask = True"
| "is_chip_call (Chip_setRetransmissionTime t) = True"
| "is_chip_call (Chip_setRetransmissionCount n) = True"
| "is_chip_call Chip_getLinkStatus = True"
| "is_chip_call Chip_getChip = True"
| "is_chip_call _ = False"

fun is_register_write :: "event \<Rightarrow> bool" where
  "is_register_write (Chip_setMACAddress m) = True"
| "is_register_write (Chip_setIPAddress a) = True"
| "is_register_write (Chip_setGatewayIp a) = True"
| "is_register_write (Chip_setSubnetMask a) = True"
| "is_register_write (Chip_setRetransmissionTime t) = True"
| "is_register_write (Chip_setRetransmissionCount n) = True"
| "is_register_write _ = False"

fun is_delegation :: "event \<Rightarrow> bool" where
  "is_delegation (Dhcp_beginWithDHCP m t r) = True"
| "is_delegation _ = False"

fun is_new :: "event \<Rightarrow> bool" where
  "is_new (Dhcp_new p) = True"
| "is_new _ = False"

fun is_delete :: "event \<Rightarrow> bool" where
  "is_delete (Dhcp_delete p) = True"
| "is_delete _ = False"

text \<open>\<open>free_at P n es\<close>: walking through \<open>es\<close> with \<open>n\<close> acquisitions open at its
  start, no acquisition is open at any call that satisfies \<open>P\<close>.\<close>

fun free_at :: "(event \<Rightarrow> bool) \<Rightarrow> int \<Rightarrow> event list \<Rightarrow> bool" where
  "free_at P n [] = True"
| "free_at P n (e # es) = ((if P e then n = 0 else True) \<and> free_at P (n + bus_delta e) es)"

text \<open>One acquire/release pair around exactly one chip-driver call.\<close>

fun one_transaction :: "event list \<Rightarrow> bool" where
  "one_transaction [b, e, f] =
     (b = SPI_beginTransaction \<and> is_chip_call e \<and> f = SPI_endTransaction)"
| "one_transaction _ = False"

text \<open>The address accessors and mutators, with the two retransmission setters.\<close>

fun is_accessor :: "member_call \<Rightarrow> bool" where
  "is_accessor Call_MACAddress = True"
| "is_accessor Call_localIP = True"
| "is_accessor Call_subnetMask = True"
| "is_accessor Call_gatewayIP = True"
| "is_accessor (Call_setMACAddress m) = True"
| "is_accessor (Call_setLocalIP a) = True"
| "is_accessor (Call_setSubnetMask a) = True"
| "is_accessor (Call_setGatewayIP a) = True"
| "is_accessor (Call_setRetransmissionTimeout t) = True"
| "is_accessor (Call_setRetransmissionCount n) = True"
| "is_accessor _ = False"

text \<open>Concrete collaborators for worked examples: a chip with identity code \<open>c\<close> and
  cleared registers; collaborators whose chip initialisation answers \<open>ok\<close>, whose
  negotiation answers \<open>ret\<close> and whose lease check answers \<open>rc\<close>, both leaving the
  lease \<open>d\<close>, with the lease-check codes 0, 2 and 4.\<close>

definition chip_example :: "u8 \<Rightarrow> W5100Class" where
  "chip_example c =
     \<lparr>shar = [0, 0, 0, 0, 0, 0], sipr = IPAddress 0 0 0 0, gar = IPAddress 0 0 0 0,
      subr = IPAddress 0 0 0 0, rtr = 2000, rcr = 8, chip = c, link = UNKNOWN\<rparr>"

definition lease_example :: DhcpClass where
  "lease_example =
     \<lparr>dhcpLocalIp = IPAddress 10 0 0 5, dhcpGatewayIp = IPAddress 10 0 0 1,
      dhcpSubnetMask = IPAddress 255 255 255 0, dhcpDnsServerIp = IPAddress 8 8 8 8\<rparr>"

definition extern_example :: "bool \<Rightarrow> int \<Rightarrow> int \<Rightarrow> DhcpClass \<Rightarrow> extern" where
  "extern_example ok ret rc d =
     \<lparr>ext_init = (\<lambda>c. (ok, c)),
      ext_new_DhcpClass =
        \<lparr>dhcpLocalIp = IPAddress 0 0 0 0, dhcpGatewayIp = IPAddress 0 0 0 0,
         dhcpSubnetMask = IPAddress 0 0 0 0, dhcpDnsServerIp = IPAddress 0 0 0 0\<rparr>,
      ext_beginWithDHCP = (\<lambda>m t r d0 c. (ret, d, c)),
      ext_checkLease = (\<lambda>d0 c. (rc, d, c)),
      ext_micros = 123456,
      DHCP_CHECK_NONE = 0, DHCP_CHECK_RENEW_OK = 2, DHCP_CHECK_REBIND_OK = 4\<rparr>"

definition mac_example :: mac where
  "mac_example = [0xDE, 0xAD, 0xBE, 0xEF, 0xFE, 0xED]"

text \<open>Collaborators whose negotiation depends on the negotiator it is called on: it
  answers 1 and keeps the lease if the negotiator already holds the local address
  10.0.0.5, and answers 0 otherwise; the lease check answers 2 and keeps the lease. Chip
  initialisation answers \<open>ok\<close>.\<close>

definition extern_reuse_example :: "bool \<Rightarrow> extern" where
  "extern_reuse_example ok =
     \<lparr>ext_init = (\<lambda>c. (ok, c)),
      ext_new_DhcpClass =
        \<lparr>dhcpLocalIp = IPAddress 0 0 0 0, dhcpGatewayIp = IPAddress 0 0 0 0,
         dhcpSubnetMask = IPAddress 0 0 0 0, dhcpDnsServerIp = IPAddress 0 0 0 0\<rparr>,
      ext_beginWithDHCP =
        (\<lambda>m t r d0 c. (if dhcpLocalIp d0 = IPAddress 10 0 0 5 then 1 else 0, d0, c)),
      ext_checkLease = (\<lambda>d0 c. (2, d0, c)),
      ext_micros = 123456,
      DHCP_CHECK_NONE = 0, DHCP_CHECK_RENEW_OK = 2, DHCP_CHECK_REBIND_OK = 4\<rparr>"


definition rebound_lease_example :: DhcpClass where
  "rebound_lease_example =
     \<lparr>dhcpLocalIp = IPAddress 10 0 0 9, dhcpGatewayIp = IPAddress 10 0 0 1,
      dhcpSubnetMask = IPAddress 255 255 255 0, dhcpDnsServerIp = IPAddress 8 8 4 4\<rparr>"

text \<open>The manager after a DHCP bring-up that succeeded with the lease \<open>lease_example\<close>.\<close>

definition after_dhcp_example :: EthernetClass where
  "after_dhcp_example =
     snd (begin_dhcp (extern_example True 1 0 lease_example) mac_example 60000 4000
            (EthernetClass_ctor (chip_example 51)))"

section \<open>Basic facts\<close>

lemmas collaborator_defs =
  record_call_def spi_beginTransaction_def spi_endTransaction_def
  w5100_init_def w5100_setMACAddress_def w5100_setIPAddress_def w5100_setGatewayIp_def
  w5100_setSubnetMask_def w5100_setRetransmissionTime_def w5100_setRetransmissionCount_def
  w5100_getMACAddress_def w5100_getIPAddress_def w5100_getGatewayIp_def
  w5100_getSubnetMask_def w5100_getLinkStatus_def w5100_getChip_def
  dhcp_beginWithDHCP_def dhcp_checkLease_def dhcp_getLocalIp_def dhcp_getGatewayIp_def
  dhcp_getSubnetMask_def dhcp_getDnsServerIp_def socketPortRand_def

lemmas example_defs =
  EthernetClass_ctor_def chip_example_def lease_example_def extern_example_def
  mac_example_def

lemma added_append: "calls s' = calls s @ es \<Longrightarrow> added s s' = es"
  by (simp add: added_def)

lemma uint_chip_code:
  "(uint (c::u8) = 51) = (c = 51)"
  "(uint (c::u8) = 52) = (c = 52)"
  "(uint (c::u8) = 55) = (c = 55)"
  by (simp_all add: word_uint_eq_iff)

lemma clamp_times_ten:
  "unat ((if (x::u16) > 6553 then 6553 else x) * 10) = min (unat x) 6553 * 10"
proof (cases "x > 6553")
  case True
  then have "6553 < unat x" by (simp add: word_less_nat_alt)
  with True show ?thesis by simp
next
  case False
  then have le: "unat x \<le> 6553" by (simp add: word_less_nat_alt)
  then have "unat (x * 10) = unat x * 10"
    by (simp add: unat_word_ariths)
  with False le show ?thesis by simp
qed

lemma bus_depth_append: "bus_depth (xs @ ys) = bus_depth xs + bus_depth ys"
  by (simp add: bus_depth_def)

subsection \<open>The calls each member function records\<close>

lemma begin_subnet_calls:
  "calls (begin_subnet x m ip dns gw sn s) =
     calls s @ (if fst (ext_init x (w5100 s))
                then [Chip_init, SPI_beginTransaction, Chip_setMACAddress m, Chip_setIPAddress ip,
                      Chip_setGatewayIp gw, Chip_setSubnetMask sn, SPI_endTransaction]
                else [Chip_init])"
  by (simp add: begin_subnet_def collaborator_defs Let_def split_beta)

lemma begin_subnet_dhcp: "dhcp (begin_subnet x m ip dns gw sn s) = dhcp s"
  by (simp add: begin_subnet_def collaborator_defs Let_def split_beta)

lemma maintain_None: "dhcp s = None \<Longrightarrow> maintain x s = (DHCP_CHECK_NONE x, s)"
  by (simp add: maintain_def)

lemma maintain_calls_Some:
  "dhcp s = Some (p, d) \<Longrightarrow> ext_checkLease x d (w5100 s) = (rc, d', c') \<Longrightarrow>
   calls (snd (maintain x s)) =
     calls s @ Dhcp_checkLease #
       (if rc \<noteq> DHCP_CHECK_NONE x \<and> (rc = DHCP_CHECK_RENEW_OK x \<or> rc = DHCP_CHECK_REBIND_OK x)
        then [SPI_beginTransaction, Dhcp_getLocalIp, Chip_setIPAddress (dhcpLocalIp d'),
              Dhcp_getGatewayIp, Chip_setGatewayIp (dhcpGatewayIp d'),
              Dhcp_getSubnetMask, Chip_setSubnetMask (dhcpSubnetMask d'),
              SPI_endTransaction, Dhcp_getDnsServerIp]
        else [])"
  by (simp add: maintain_def collaborator_defs Let_def split_beta)

lemma begin_dhcp_calls:
  "ext_init x (w5100 s) = (ok, c1) \<Longrightarrow>
   ext_beginWithDHCP x m t r (case dhcp s of None \<Rightarrow> ext_new_DhcpClass x | Some (p, d) \<Rightarrow> d)
     (c1\<lparr>shar := m, sipr := IPAddress 0 0 0 0\<rparr>)
     = (ret, d', c2) \<Longrightarrow>
   calls (snd (begin_dhcp x m t r s)) =
     calls s @ (case dhcp s of None \<Rightarrow> [Dhcp_new (heap_next s)] | Some pd \<Rightarrow> []) @
       Chip_init #
       (if ok then
          [SPI_beginTransaction, Chip_setMACAddress m, Chip_setIPAddress (IPAddress 0 0 0 0),
           SPI_endTransaction, Dhcp_beginWithDHCP m t r] @
          (if ret = 1 then
             [SPI_beginTransaction, Dhcp_getLocalIp, Chip_setIPAddress (dhcpLocalIp d'),
              Dhcp_getGatewayIp, Chip_setGatewayIp (dhcpGatewayIp d'),
              Dhcp_getSubnetMask, Chip_setSubnetMask (dhcpSubnetMask d'),
              SPI_endTransaction, Dhcp_getDnsServerIp, Sys_micros,
              Eth_socketPortRand (ext_micros x)]
           else [])
        else [])"
  by (cases "dhcp s") (auto simp add: begin_dhcp_def ensure_dhcp_def collaborator_defs Let_def split_beta)

lemma begin_dhcp_dhcp:
  "\<exists>d'. dhcp (snd (begin_dhcp x m t r s)) =
     Some (case dhcp s of None \<Rightarrow> heap_next s | Some (p, d) \<Rightarrow> p, d')"
  by (cases "dhcp s")
     (auto simp add: begin_dhcp_def ensure_dhcp_def collaborator_defs Let_def split_beta)

lemma accessor_calls:
  "calls (snd (MACAddress s)) =
     calls s @ [SPI_beginTransaction, Chip_getMACAddress, SPI_endTransaction]"
  "calls (snd (localIP s)) =
     calls s @ [SPI_beginTransaction, Chip_getIPAddress, SPI_endTransaction]"
  "calls (snd (subnetMask s)) =
     calls s @ [SPI_beginTransaction, Chip_getSubnetMask, SPI_endTransaction]"
  "calls (snd (gatewayIP s)) =
     calls s @ [SPI_beginTransaction, Chip_getGatewayIp, SPI_endTransaction]"
  "calls (setMACAddress m s) =
     calls s @ [SPI_beginTransaction, Chip_setMACAddress m, SPI_endTransaction]"
  "calls (setLocalIP a s) =
     calls s @ [SPI_beginTransaction, Chip_setIPAddress a, SPI_endTransaction]"
  "calls (setSubnetMask a s) =
     calls s @ [SPI_beginTransaction, Chip_setSubnetMask a, SPI_endTransaction]"
  "calls (setGatewayIP a s) =
     calls s @ [SPI_beginTransaction, Chip_setGatewayIp a, SPI_endTransaction]"
  "calls (setRetransmissionTimeout t s) =
     calls s @ [SPI_beginTransaction,
                Chip_setRetransmissionTime ((if t > 6553 then 6553 else t) * 10),
                SPI_endTransaction]"
  "calls (setRetransmissionCount n s) =
     calls s @ [SPI_beginTransaction, Chip_setRetransmissionCount n, SPI_endTransaction]"
  by (simp_all add: MACAddress_def localIP_def subnetMask_def gatewayIP_def
      setMACAddress_def setLocalIP_def setSubnetMask_def setGatewayIP_def
      setRetransmissionTimeout_def setRetransmissionCount_def collaborator_defs Let_def
      split_beta)

lemma invoke_calls: "\<exists>es. calls (invoke c s) = calls s @ es"
proof (cases c)
  case (Call_begin_dhcp x m t r)
  obtain ok c1 where i: "ext_init x (w5100 s) = (ok, c1)" by (cases "ext_init x (w5100 s)")
  obtain ret d' c2 where b: "ext_beginWithDHCP x m t r (case dhcp s of None \<Rightarrow> ext_new_DhcpClass x | Some (p, d) \<Rightarrow> d)
     (c1\<lparr>shar := m, sipr := IPAddress 0 0 0 0\<rparr>)
     = (ret, d', c2)" using prod_cases3 by blast
  show ?thesis unfolding Call_begin_dhcp invoke.simps begin_dhcp_calls[OF i b] by blast
next
  case (Call_maintain x)
  show ?thesis
  proof (cases "dhcp s")
    case None
    then show ?thesis unfolding Call_maintain by (simp add: maintain_None)
  next
    case (Some pd)
    obtain p d where pd: "pd = (p, d)" by (cases pd)
    obtain rc d' c' where b: "ext_checkLease x d (w5100 s) = (rc, d', c')" using prod_cases3 by blast
    show ?thesis unfolding Call_maintain invoke.simps maintain_calls_Some[OF Some[unfolded pd] b] by blast
  qed
qed (simp_all add: begin_ip_def begin_dns_def begin_gateway_def begin_subnet_calls
      linkStatus_def hardwareStatus_def MACAddress_def localIP_def subnetMask_def
      gatewayIP_def setMACAddress_def setLocalIP_def setSubnetMask_def setGatewayIP_def
      setRetransmissionTimeout_def setRetransmissionCount_def collaborator_defs Let_def split_beta)

lemma run_calls: "\<exists>es. calls (run cs s) = calls s @ es"
proof (induction cs arbitrary: s)
  case Nil
  then show ?case by simp
next
  case (Cons c cs)
  obtain es where e: "calls (invoke c s) = calls s @ es" using invoke_calls by blast
  obtain fs where "calls (run cs (invoke c s)) = calls (invoke c s) @ fs" using Cons.IH by blast
  with e show ?case by simp
qed

subsection \<open>The pointer to the negotiator\<close>

lemma begin_dhcp_fst_dhcp:
  "map_option fst (dhcp (snd (begin_dhcp x m t r s))) =
     Some (case dhcp s of None \<Rightarrow> heap_next s | Some (p, d) \<Rightarrow> p)"
  using begin_dhcp_dhcp[of x m t r s] by auto

lemma maintain_fst_dhcp:
  "map_option fst (dhcp (snd (maintain x s))) = map_option fst (dhcp s)"
  by (cases "dhcp s") (auto simp add: maintain_def collaborator_defs Let_def split_beta)

lemma invoke_fst_dhcp:
  "map_option fst (dhcp (invoke c s)) =
     (if is_begin_dhcp c \<and> dhcp s = None then Some (heap_next s) else map_option fst (dhcp s))"
proof (cases c)
  case (Call_begin_dhcp x m t r)
  then show ?thesis by (cases "dhcp s") (auto simp add: begin_dhcp_fst_dhcp)
next
  case (Call_maintain x)
  then show ?thesis by (simp add: maintain_fst_dhcp)
qed (simp_all add: begin_ip_def begin_dns_def begin_gateway_def begin_subnet_dhcp
      linkStatus_def hardwareStatus_def MACAddress_def localIP_def subnetMask_def
      gatewayIP_def setMACAddress_def setLocalIP_def setSubnetMask_def setGatewayIP_def
      setRetransmissionTimeout_def setRetransmissionCount_def collaborator_defs Let_def split_beta)

lemma invoke_dhcp_None_iff:
  "(dhcp (invoke c s) = None) = (dhcp s = None \<and> \<not> is_begin_dhcp c)"
  using invoke_fst_dhcp[of c s] by (auto split: if_splits)

lemma invoke_dhcp_Some:
  "dhcp s = Some (p, d) \<Longrightarrow> \<exists>d'. dhcp (invoke c s) = Some (p, d')"
  using invoke_fst_dhcp[of c s] by auto

lemma run_dhcp_Some:
  "dhcp s = Some (p, d) \<Longrightarrow> \<exists>d'. dhcp (run cs s) = Some (p, d')"
proof (induction cs arbitrary: s d)
  case Nil
  then show ?case by simp
next
  case (Cons c cs)
  from invoke_dhcp_Some[OF Cons.prems, of c]
  obtain d1 where "dhcp (invoke c s) = Some (p, d1)" ..
  from Cons.IH[OF this] show ?case by simp
qed

lemma run_dhcp_None_iff:
  "(dhcp (run cs s) = None) = (dhcp s = None \<and> \<not> list_ex is_begin_dhcp cs)"
  by (induction cs arbitrary: s) (auto simp add: invoke_dhcp_None_iff)

lemma begin_dhcp_state_exact:
  "dhcp (snd (begin_dhcp x m t r s)) =
     Some (case dhcp s of None \<Rightarrow> heap_next s | Some (p, d) \<Rightarrow> p,
           if fst (ext_init x (w5100 s))
           then fst (snd (ext_beginWithDHCP x m t r
                  (case dhcp s of None \<Rightarrow> ext_new_DhcpClass x | Some (p, d) \<Rightarrow> d)
                  ((snd (ext_init x (w5100 s)))\<lparr>shar := m, sipr := IPAddress 0 0 0 0\<rparr>)))
           else (case dhcp s of None \<Rightarrow> ext_new_DhcpClass x | Some (p, d) \<Rightarrow> d))"
  by (cases "dhcp s")
     (auto simp add: begin_dhcp_def ensure_dhcp_def collaborator_defs Let_def split_beta)

lemma begin_dhcp_result_exact:
  "fst (begin_dhcp x m t r s) =
     (if fst (ext_init x (w5100 s))
      then fst (ext_beginWithDHCP x m t r
             (case dhcp s of None \<Rightarrow> ext_new_DhcpClass x | Some (p, d) \<Rightarrow> d)
             ((snd (ext_init x (w5100 s)))\<lparr>shar := m, sipr := IPAddress 0 0 0 0\<rparr>))
      else 0)"
  by (cases "dhcp s")
     (auto simp add: begin_dhcp_def ensure_dhcp_def collaborator_defs Let_def split_beta)

lemma maintain_state_exact:
  "dhcp s = Some (p, d) \<Longrightarrow>
   dhcp (snd (maintain x s)) = Some (p, fst (snd (ext_checkLease x d (w5100 s))))"
  by (simp add: maintain_def collaborator_defs Let_def split_beta)

lemma invoke_other_dhcp:
  "\<not> is_begin_dhcp c \<Longrightarrow> \<not> is_maintain c \<Longrightarrow> dhcp (invoke c s) = dhcp s"
  by (cases c)
     (simp_all add: begin_ip_def begin_dns_def begin_gateway_def begin_subnet_dhcp
      linkStatus_def hardwareStatus_def MACAddress_def localIP_def subnetMask_def
      gatewayIP_def setMACAddress_def setLocalIP_def setSubnetMask_def setGatewayIP_def
      setRetransmissionTimeout_def setRetransmissionCount_def collaborator_defs Let_def
      split_beta)

lemma run_other_dhcp:
  "\<not> list_ex is_begin_dhcp cs \<Longrightarrow> \<not> list_ex is_maintain cs \<Longrightarrow> dhcp (run cs s) = dhcp s"
  by (induction cs arbitrary: s) (simp_all add: invoke_other_dhcp)

subsection \<open>Allocations and deallocations in the record of calls\<close>

lemma begin_dhcp_filter:
  assumes "\<And>e. P e \<Longrightarrow> is_new e \<or> is_delete e"
  shows "filter P (calls (snd (begin_dhcp x m t r s))) =
     filter P (calls s) @
       (case dhcp s of None \<Rightarrow> filter P [Dhcp_new (heap_next s)] | Some pd \<Rightarrow> [])"
proof -
  obtain ok c1 where i: "ext_init x (w5100 s) = (ok, c1)" by (cases "ext_init x (w5100 s)")
  obtain ret d' c2 where b: "ext_beginWithDHCP x m t r (case dhcp s of None \<Rightarrow> ext_new_DhcpClass x | Some (p, d) \<Rightarrow> d)
     (c1\<lparr>shar := m, sipr := IPAddress 0 0 0 0\<rparr>) = (ret, d', c2)" using prod_cases3 by blast
  have n: "\<not> P e" if "\<not> is_new e" "\<not> is_delete e" for e using assms that by blast
  show ?thesis unfolding begin_dhcp_calls[OF i b]
    by (cases "dhcp s") (simp_all add: n)
qed

lemma maintain_filter:
  assumes "\<And>e. P e \<Longrightarrow> is_new e \<or> is_delete e"
  shows "filter P (calls (snd (maintain x s))) = filter P (calls s)"
proof (cases "dhcp s")
  case None
  then show ?thesis by (simp add: maintain_None)
next
  case (Some pd)
  obtain p d where pd: "pd = (p, d)" by (cases pd)
  obtain rc d' c' where b: "ext_checkLease x d (w5100 s) = (rc, d', c')" using prod_cases3 by blast
  have n: "\<not> P e" if "\<not> is_new e" "\<not> is_delete e" for e using assms that by blast
  show ?thesis unfolding maintain_calls_Some[OF Some[unfolded pd] b] by (simp add: n)
qed

lemma invoke_filter:
  assumes "\<And>e. P e \<Longrightarrow> is_new e \<or> is_delete e"
  shows "filter P (calls (invoke c s)) =
     filter P (calls s) @
       (if is_begin_dhcp c \<and> dhcp s = None then filter P [Dhcp_new (heap_next s)] else [])"
proof -
  have n: "\<not> P e" if "\<not> is_new e" "\<not> is_delete e" for e using assms that by blast
  show ?thesis
  proof (cases c)
    case (Call_begin_dhcp x m t r)
    then show ?thesis by (cases "dhcp s") (simp_all add: begin_dhcp_filter[OF assms])
  next
    case (Call_maintain x)
    then show ?thesis by (simp add: maintain_filter[OF assms])
  qed (simp_all add: n begin_ip_def begin_dns_def begin_gateway_def begin_subnet_calls
      linkStatus_def hardwareStatus_def MACAddress_def localIP_def subnetMask_def
      gatewayIP_def setMACAddress_def setLocalIP_def setSubnetMask_def setGatewayIP_def
      setRetransmissionTimeout_def setRetransmissionCount_def collaborator_defs Let_def split_beta)
qed

lemma invoke_new: "filter is_new (calls (invoke c s)) =
     filter is_new (calls s) @
       (if is_begin_dhcp c \<and> dhcp s = None then [Dhcp_new (heap_next s)] else [])"
  using invoke_filter[of is_new c s] by simp

lemma invoke_delete: "filter is_delete (calls (invoke c s)) = filter is_delete (calls s)"
  using invoke_filter[of is_delete c s] by simp

lemma run_delete: "filter is_delete (calls (run cs s)) = filter is_delete (calls s)"
  by (induction cs arbitrary: s) (simp_all add: invoke_delete)

lemma run_new:
  "length (filter is_new (calls (run cs s))) =
     length (filter is_new (calls s)) +
       (if dhcp s = None \<and> list_ex is_begin_dhcp cs then 1 else 0)"
proof (induction cs arbitrary: s)
  case Nil
  then show ?case by simp
next
  case (Cons c cs)
  show ?case
    by (simp add: Cons.IH invoke_new invoke_dhcp_None_iff)
qed

lemma run_added_filter_pointer:
  assumes "dhcp s = Some (p, d)"
  shows "filter is_new (added s (run cs s)) = [] \<and> filter is_delete (added s (run cs s)) = []"
proof -
  obtain es where e: "calls (run cs s) = calls s @ es" using run_calls by blast
  have a: "added s (run cs s) = es" using e by (rule added_append)
  have "length (filter is_new (calls (run cs s))) = length (filter is_new (calls s))"
    using assms by (simp add: run_new)
  then have n: "filter is_new es = []" unfolding e by simp
  have "filter is_delete (calls (run cs s)) = filter is_delete (calls s)"
    by (rule run_delete)
  then have dl: "filter is_delete es = []" unfolding e by simp
  from n dl show ?thesis unfolding a by simp
qed

subsection \<open>The worked example\<close>

lemma after_dhcp_example_dhcp: "dhcp after_dhcp_example = Some (0, lease_example)"
  by (simp add: after_dhcp_example_def begin_dhcp_def ensure_dhcp_def collaborator_defs
      Let_def split_beta EthernetClass_ctor_def extern_example_def)

lemma after_dhcp_example_dns: "dnsServerAddress after_dhcp_example = IPAddress 8 8 8 8"
  by (simp add: after_dhcp_example_def begin_dhcp_def ensure_dhcp_def collaborator_defs
      Let_def split_beta EthernetClass_ctor_def extern_example_def lease_example_def)

subsection \<open>Accessors\<close>

lemma accessor_invoke:
  assumes "is_accessor c"
  shows "one_transaction (added s (invoke c s))
    \<and> bus_depth (calls (invoke c s)) = bus_depth (calls s)"
  using assms
  by (cases c) (simp_all add: accessor_calls added_def bus_depth_append, simp_all add: bus_depth_def)

section \<open>Hardware identity\<close>

text \<open>
  C1, as stated: \<open>hardwareStatus()\<close> answers the W5100 variant for the identity code
  \<open>0x51\<close>. It does not: the labels of the \<open>switch\<close> are decimal, and for the code
  \<open>0x51\<close> (decimal 81) the answer is \<open>EthernetNoHardware\<close>.
\<close>

theorem hardwareStatus_hex_code_counterexample:
  "fst (hardwareStatus (EthernetClass_ctor (chip_example 0x51))) = EthernetNoHardware"
  by (simp add: hardwareStatus_def w5100_getChip_def hardwareStatus_switch_def
      EthernetClass_ctor_def chip_example_def)

text \<open>
  C1, amended: for every identity code the chip driver answers, \<open>hardwareStatus()\<close>
  returns \<open>EthernetW5100\<close> for the code 51, \<open>EthernetW5200\<close> for 52, \<open>EthernetW5500\<close>
  for 55 (decimal: \<open>0x33\<close>, \<open>0x34\<close>, \<open>0x37\<close>) and \<open>EthernetNoHardware\<close> for every other
  code; its only collaborator call is the identity query, and nothing else changes.
\<close>

theorem hardwareStatus_decimal_codes:
  "hardwareStatus s =
     (if chip (w5100 s) = 51 then EthernetW5100
      else if chip (w5100 s) = 52 then EthernetW5200
      else if chip (w5100 s) = 55 then EthernetW5500
      else EthernetNoHardware,
      s\<lparr>calls := calls s @ [Chip_getChip]\<rparr>)"
  by (simp add: hardwareStatus_def w5100_getChip_def hardwareStatus_switch_def
      uint_chip_code record_call_def)

section \<open>Static bring-up\<close>

text \<open>
  C2: \<open>begin(mac, ip)\<close> resolves the omitted parameters by delegating through the shorter
  overloads: it calls \<open>begin(mac, ip, dns)\<close> with \<open>dns\<close> the address \<open>ip\<close> with fourth octet
  1, which calls \<open>begin(mac, ip, dns, gateway)\<close> with \<open>gateway\<close> the address \<open>ip\<close> with
  fourth octet 1, which calls the full overload with the subnet 255.255.255.0. So
  \<open>begin(mac, ip)\<close> is the full overload at these three values, and when chip
  initialisation succeeds the cached DNS address and the gateway register hold \<open>ip\<close>
  with fourth octet 1 and the subnet register holds 255.255.255.0.
\<close>

theorem begin_ip_chained_defaults:
  "begin_ip x m (IPAddress a b c d) s =
     begin_dns x m (IPAddress a b c d) (IPAddress a b c 1) s
   \<and> begin_dns x m (IPAddress a b c d) dns s =
     begin_gateway x m (IPAddress a b c d) dns (IPAddress a b c 1) s
   \<and> begin_gateway x m ip dns gw s =
     begin_subnet x m ip dns gw (IPAddress 255 255 255 0) s
   \<and> begin_ip x m (IPAddress a b c d) s =
     begin_subnet x m (IPAddress a b c d) (IPAddress a b c 1) (IPAddress a b c 1)
       (IPAddress 255 255 255 0) s
   \<and> (fst (ext_init x (w5100 s)) \<longrightarrow>
        dnsServerAddress (begin_ip x m (IPAddress a b c d) s) = IPAddress a b c 1
        \<and> gar (w5100 (begin_ip x m (IPAddress a b c d) s)) = IPAddress a b c 1
        \<and> subr (w5100 (begin_ip x m (IPAddress a b c d) s)) = IPAddress 255 255 255 0
        \<and> sipr (w5100 (begin_ip x m (IPAddress a b c d) s)) = IPAddress a b c d)"
proof -
  have 1: "begin_ip x m (IPAddress a b c d) s =
     begin_dns x m (IPAddress a b c d) (IPAddress a b c 1) s"
    by (simp add: begin_ip_def IPAddress_update_def)
  have 2: "begin_dns x m (IPAddress a b c d) dns s =
     begin_gateway x m (IPAddress a b c d) dns (IPAddress a b c 1) s" for dns
    by (simp add: begin_dns_def IPAddress_update_def)
  have 3: "begin_gateway x m ip dns gw s =
     begin_subnet x m ip dns gw (IPAddress 255 255 255 0) s" for ip dns gw
    by (simp add: begin_gateway_def)
  have 4: "begin_ip x m (IPAddress a b c d) s =
     begin_subnet x m (IPAddress a b c d) (IPAddress a b c 1) (IPAddress a b c 1)
       (IPAddress 255 255 255 0) s"
    by (simp only: 1 2 3)
  have 5: "fst (ext_init x (w5100 s)) \<longrightarrow>
        dnsServerAddress (begin_ip x m (IPAddress a b c d) s) = IPAddress a b c 1
        \<and> gar (w5100 (begin_ip x m (IPAddress a b c d) s)) = IPAddress a b c 1
        \<and> subr (w5100 (begin_ip x m (IPAddress a b c d) s)) = IPAddress 255 255 255 0
        \<and> sipr (w5100 (begin_ip x m (IPAddress a b c d) s)) = IPAddress a b c d"
    unfolding 4 by (simp add: begin_subnet_def collaborator_defs Let_def split_beta)
  from 1 2 3 4 5 show ?thesis by blast
qed

text \<open>The scenario of the specification: the static address 192.168.1.50 gives the
  DNS address and the gateway 192.168.1.1 and the subnet 255.255.255.0.\<close>

theorem begin_ip_chained_defaults_witness:
  "fst (ext_init (extern_example True 1 0 lease_example)
          (w5100 (EthernetClass_ctor (chip_example 51))))
   \<and> dnsServerAddress (begin_ip (extern_example True 1 0 lease_example) mac_example
        (IPAddress 192 168 1 50) (EthernetClass_ctor (chip_example 51))) = IPAddress 192 168 1 1
   \<and> gar (w5100 (begin_ip (extern_example True 1 0 lease_example) mac_example
        (IPAddress 192 168 1 50) (EthernetClass_ctor (chip_example 51)))) = IPAddress 192 168 1 1
   \<and> subr (w5100 (begin_ip (extern_example True 1 0 lease_example) mac_example
        (IPAddress 192 168 1 50) (EthernetClass_ctor (chip_example 51)))) = IPAddress 255 255 255 0"
proof -
  have h: "fst (ext_init (extern_example True 1 0 lease_example)
          (w5100 (EthernetClass_ctor (chip_example 51))))"
    by (simp add: example_defs)
  from h begin_ip_chained_defaults [of "extern_example True 1 0 lease_example" mac_example
      192 168 1 50 "EthernetClass_ctor (chip_example 51)"
      "IPAddress 0 0 0 0" "IPAddress 0 0 0 0" "IPAddress 0 0 0 0"]
  show ?thesis by blast
qed

section \<open>Retransmission timeout\<close>

text \<open>
  C3: for every input \<open>x\<close>, \<open>setRetransmissionTimeout(x)\<close> writes \<open>min(x, 6553) * 10\<close>
  to the retransmission-time register, inside one bus acquisition; the product is
  the product of the natural numbers (the 16-bit multiplication does not wrap) and is
  at most 65530; \<open>x = 0\<close> stores 0 and \<open>x = 7000\<close> stores 65530.
\<close>

theorem setRetransmissionTimeout_stores_clamped:
  "unat (rtr (w5100 (setRetransmissionTimeout x s))) = min (unat x) 6553 * 10
   \<and> unat (rtr (w5100 (setRetransmissionTimeout x s))) \<le> 65530
   \<and> calls (setRetransmissionTimeout x s) =
       calls s @ [SPI_beginTransaction,
                  Chip_setRetransmissionTime (rtr (w5100 (setRetransmissionTimeout x s))),
                  SPI_endTransaction]
   \<and> rtr (w5100 (setRetransmissionTimeout 0 s)) = 0
   \<and> rtr (w5100 (setRetransmissionTimeout 7000 s)) = 65530"
proof -
  have r: "rtr (w5100 (setRetransmissionTimeout y s)) = (if y > 6553 then 6553 else y) * 10"
    for y
    by (simp add: setRetransmissionTimeout_def collaborator_defs Let_def)
  have c: "calls (setRetransmissionTimeout x s) =
       calls s @ [SPI_beginTransaction,
                  Chip_setRetransmissionTime ((if x > 6553 then 6553 else x) * 10),
                  SPI_endTransaction]"
    by (simp add: setRetransmissionTimeout_def collaborator_defs Let_def)
  have u: "unat (rtr (w5100 (setRetransmissionTimeout x s))) = min (unat x) 6553 * 10"
    unfolding r by (rule clamp_times_ten)
  have b: "unat (rtr (w5100 (setRetransmissionTimeout x s))) \<le> 65530"
    unfolding u by simp
  have z: "rtr (w5100 (setRetransmissionTimeout 0 s)) = 0"
    unfolding r by simp
  have k: "rtr (w5100 (setRetransmissionTimeout 7000 s)) = 65530"
    unfolding r by simp
  from u b c z k show ?thesis
    unfolding r by blast
qed

section \<open>Maintenance\<close>

text \<open>
  C4: when a negotiator exists, \<open>maintain()\<close> returns the code \<open>rc\<close> of the lease check
  unchanged. If \<open>rc\<close> is the renewed or the rebound code, the calls after the lease
  check are one bus acquisition around the writes of the negotiator's current local,
  gateway and subnet addresses to the chip driver, and the cached DNS address becomes
  the negotiator's. For every other code (the no-lease code and every error code) the
  lease check is the only call, no register is written and the cached DNS address is
  unchanged. The case labels of the \<open>switch\<close> are distinct, as C++ requires.
\<close>

theorem maintain_republishes_lease:
  assumes "dhcp s = Some (p, d)"
    and "ext_checkLease x d (w5100 s) = (rc, d', c')"
    and "DHCP_CHECK_NONE x \<noteq> DHCP_CHECK_RENEW_OK x"
    and "DHCP_CHECK_NONE x \<noteq> DHCP_CHECK_REBIND_OK x"
  shows "fst (maintain x s) = rc
   \<and> (rc = DHCP_CHECK_RENEW_OK x \<or> rc = DHCP_CHECK_REBIND_OK x \<longrightarrow>
        added s (snd (maintain x s)) =
          [Dhcp_checkLease, SPI_beginTransaction,
           Dhcp_getLocalIp, Chip_setIPAddress (dhcpLocalIp d'),
           Dhcp_getGatewayIp, Chip_setGatewayIp (dhcpGatewayIp d'),
           Dhcp_getSubnetMask, Chip_setSubnetMask (dhcpSubnetMask d'),
           SPI_endTransaction, Dhcp_getDnsServerIp]
        \<and> w5100 (snd (maintain x s)) =
            c'\<lparr>sipr := dhcpLocalIp d', gar := dhcpGatewayIp d', subr := dhcpSubnetMask d'\<rparr>
        \<and> dnsServerAddress (snd (maintain x s)) = dhcpDnsServerIp d')
   \<and> (rc \<noteq> DHCP_CHECK_RENEW_OK x \<and> rc \<noteq> DHCP_CHECK_REBIND_OK x \<longrightarrow>
        added s (snd (maintain x s)) = [Dhcp_checkLease]
        \<and> filter is_register_write (added s (snd (maintain x s))) = []
        \<and> w5100 (snd (maintain x s)) = c'
        \<and> dnsServerAddress (snd (maintain x s)) = dnsServerAddress s)"
proof -
  have r: "fst (maintain x s) = rc"
    using assms(1,2) by (simp add: maintain_def collaborator_defs Let_def split_beta)
  have c: "calls (snd (maintain x s)) =
     calls s @ Dhcp_checkLease #
       (if rc \<noteq> DHCP_CHECK_NONE x \<and> (rc = DHCP_CHECK_RENEW_OK x \<or> rc = DHCP_CHECK_REBIND_OK x)
        then [SPI_beginTransaction, Dhcp_getLocalIp, Chip_setIPAddress (dhcpLocalIp d'),
              Dhcp_getGatewayIp, Chip_setGatewayIp (dhcpGatewayIp d'),
              Dhcp_getSubnetMask, Chip_setSubnetMask (dhcpSubnetMask d'),
              SPI_endTransaction, Dhcp_getDnsServerIp]
        else [])"
    by (rule maintain_calls_Some[OF assms(1,2)])
  have ok: "rc = DHCP_CHECK_RENEW_OK x \<or> rc = DHCP_CHECK_REBIND_OK x \<longrightarrow>
        added s (snd (maintain x s)) =
          [Dhcp_checkLease, SPI_beginTransaction,
           Dhcp_getLocalIp, Chip_setIPAddress (dhcpLocalIp d'),
           Dhcp_getGatewayIp, Chip_setGatewayIp (dhcpGatewayIp d'),
           Dhcp_getSubnetMask, Chip_setSubnetMask (dhcpSubnetMask d'),
           SPI_endTransaction, Dhcp_getDnsServerIp]
        \<and> w5100 (snd (maintain x s)) =
            c'\<lparr>sipr := dhcpLocalIp d', gar := dhcpGatewayIp d', subr := dhcpSubnetMask d'\<rparr>
        \<and> dnsServerAddress (snd (maintain x s)) = dhcpDnsServerIp d'"
  proof
    assume h: "rc = DHCP_CHECK_RENEW_OK x \<or> rc = DHCP_CHECK_REBIND_OK x"
    with assms(3,4) have n: "rc \<noteq> DHCP_CHECK_NONE x" by auto
    have a: "added s (snd (maintain x s)) =
          [Dhcp_checkLease, SPI_beginTransaction,
           Dhcp_getLocalIp, Chip_setIPAddress (dhcpLocalIp d'),
           Dhcp_getGatewayIp, Chip_setGatewayIp (dhcpGatewayIp d'),
           Dhcp_getSubnetMask, Chip_setSubnetMask (dhcpSubnetMask d'),
           SPI_endTransaction, Dhcp_getDnsServerIp]"
      using c h n by (intro added_append) simp
    have w: "w5100 (snd (maintain x s)) =
            c'\<lparr>sipr := dhcpLocalIp d', gar := dhcpGatewayIp d', subr := dhcpSubnetMask d'\<rparr>"
      using assms(1,2) h n by (simp add: maintain_def collaborator_defs Let_def split_beta)
    have dn: "dnsServerAddress (snd (maintain x s)) = dhcpDnsServerIp d'"
      using assms(1,2) h n by (simp add: maintain_def collaborator_defs Let_def split_beta)
    from a w dn show "added s (snd (maintain x s)) =
          [Dhcp_checkLease, SPI_beginTransaction,
           Dhcp_getLocalIp, Chip_setIPAddress (dhcpLocalIp d'),
           Dhcp_getGatewayIp, Chip_setGatewayIp (dhcpGatewayIp d'),
           Dhcp_getSubnetMask, Chip_setSubnetMask (dhcpSubnetMask d'),
           SPI_endTransaction, Dhcp_getDnsServerIp]
        \<and> w5100 (snd (maintain x s)) =
            c'\<lparr>sipr := dhcpLocalIp d', gar := dhcpGatewayIp d', subr := dhcpSubnetMask d'\<rparr>
        \<and> dnsServerAddress (snd (maintain x s)) = dhcpDnsServerIp d'" by blast
  qed
  have no: "rc \<noteq> DHCP_CHECK_RENEW_OK x \<and> rc \<noteq> DHCP_CHECK_REBIND_OK x \<longrightarrow>
        added s (snd (maintain x s)) = [Dhcp_checkLease]
        \<and> filter is_register_write (added s (snd (maintain x s))) = []
        \<and> w5100 (snd (maintain x s)) = c'
        \<and> dnsServerAddress (snd (maintain x s)) = dnsServerAddress s"
  proof
    assume h: "rc \<noteq> DHCP_CHECK_RENEW_OK x \<and> rc \<noteq> DHCP_CHECK_REBIND_OK x"
    have a: "added s (snd (maintain x s)) = [Dhcp_checkLease]"
      using c h by (intro added_append) simp
    have w: "w5100 (snd (maintain x s)) = c'"
      using assms(1,2) h by (simp add: maintain_def collaborator_defs Let_def split_beta)
    have dn: "dnsServerAddress (snd (maintain x s)) = dnsServerAddress s"
      using assms(1,2) h by (simp add: maintain_def collaborator_defs Let_def split_beta)
    from a w dn show "added s (snd (maintain x s)) = [Dhcp_checkLease]
        \<and> filter is_register_write (added s (snd (maintain x s))) = []
        \<and> w5100 (snd (maintain x s)) = c'
        \<and> dnsServerAddress (snd (maintain x s)) = dnsServerAddress s" by simp
  qed
  from r ok no show ?thesis by blast
qed

text \<open>After the example bring-up: a lease check answering rebound (4) with a new lease
  publishes 10.0.0.9 and caches the DNS address 8.8.4.4; a lease check answering an
  error code (3) records the lease check alone and keeps the DNS address 8.8.8.8.\<close>

theorem maintain_republishes_lease_witness:
  "dhcp after_dhcp_example = Some (0, lease_example)
   \<and> ext_checkLease (extern_example True 1 4 rebound_lease_example) lease_example
        (w5100 after_dhcp_example) = (4, rebound_lease_example, w5100 after_dhcp_example)
   \<and> DHCP_CHECK_NONE (extern_example True 1 4 rebound_lease_example) \<noteq>
       DHCP_CHECK_RENEW_OK (extern_example True 1 4 rebound_lease_example)
   \<and> DHCP_CHECK_NONE (extern_example True 1 4 rebound_lease_example) \<noteq>
       DHCP_CHECK_REBIND_OK (extern_example True 1 4 rebound_lease_example)
   \<and> fst (maintain (extern_example True 1 4 rebound_lease_example) after_dhcp_example) = 4
   \<and> sipr (w5100 (snd (maintain (extern_example True 1 4 rebound_lease_example)
        after_dhcp_example))) = IPAddress 10 0 0 9
   \<and> dnsServerAddress (snd (maintain (extern_example True 1 4 rebound_lease_example)
        after_dhcp_example)) = IPAddress 8 8 4 4
   \<and> fst (maintain (extern_example True 1 3 rebound_lease_example) after_dhcp_example) = 3
   \<and> added after_dhcp_example
        (snd (maintain (extern_example True 1 3 rebound_lease_example) after_dhcp_example)) =
       [Dhcp_checkLease]
   \<and> dnsServerAddress (snd (maintain (extern_example True 1 3 rebound_lease_example)
        after_dhcp_example)) = IPAddress 8 8 8 8"
proof -
  have k4: "ext_checkLease (extern_example True 1 4 rebound_lease_example) lease_example
        (w5100 after_dhcp_example) = (4, rebound_lease_example, w5100 after_dhcp_example)"
    by (simp add: extern_example_def)
  have k3: "ext_checkLease (extern_example True 1 3 rebound_lease_example) lease_example
        (w5100 after_dhcp_example) = (3, rebound_lease_example, w5100 after_dhcp_example)"
    by (simp add: extern_example_def)
  have c4: "DHCP_CHECK_NONE (extern_example True 1 4 rebound_lease_example) = 0"
    "DHCP_CHECK_RENEW_OK (extern_example True 1 4 rebound_lease_example) = 2"
    "DHCP_CHECK_REBIND_OK (extern_example True 1 4 rebound_lease_example) = 4"
    by (simp_all add: extern_example_def)
  have c3: "DHCP_CHECK_NONE (extern_example True 1 3 rebound_lease_example) = 0"
    "DHCP_CHECK_RENEW_OK (extern_example True 1 3 rebound_lease_example) = 2"
    "DHCP_CHECK_REBIND_OK (extern_example True 1 3 rebound_lease_example) = 4"
    by (simp_all add: extern_example_def)
  have n4: "DHCP_CHECK_NONE (extern_example True 1 4 rebound_lease_example) \<noteq>
       DHCP_CHECK_RENEW_OK (extern_example True 1 4 rebound_lease_example)"
    "DHCP_CHECK_NONE (extern_example True 1 4 rebound_lease_example) \<noteq>
       DHCP_CHECK_REBIND_OK (extern_example True 1 4 rebound_lease_example)"
    by (simp_all add: c4)
  have n3: "DHCP_CHECK_NONE (extern_example True 1 3 rebound_lease_example) \<noteq>
       DHCP_CHECK_RENEW_OK (extern_example True 1 3 rebound_lease_example)"
    "DHCP_CHECK_NONE (extern_example True 1 3 rebound_lease_example) \<noteq>
       DHCP_CHECK_REBIND_OK (extern_example True 1 3 rebound_lease_example)"
    by (simp_all add: c3)
  note t4 = maintain_republishes_lease [OF after_dhcp_example_dhcp k4 n4]
  note t3 = maintain_republishes_lease [OF after_dhcp_example_dhcp k3 n3]
  have r4: "fst (maintain (extern_example True 1 4 rebound_lease_example) after_dhcp_example) = 4"
    using t4 by blast
  have w4: "sipr (w5100 (snd (maintain (extern_example True 1 4 rebound_lease_example)
        after_dhcp_example))) = IPAddress 10 0 0 9"
    using t4 [THEN conjunct2, THEN conjunct1] c4
    by (simp add: rebound_lease_example_def)
  have d4: "dnsServerAddress (snd (maintain (extern_example True 1 4 rebound_lease_example)
        after_dhcp_example)) = IPAddress 8 8 4 4"
    using t4 [THEN conjunct2, THEN conjunct1] c4
    by (simp add: rebound_lease_example_def)
  have r3: "fst (maintain (extern_example True 1 3 rebound_lease_example) after_dhcp_example) = 3"
    using t3 by blast
  have a3: "added after_dhcp_example
        (snd (maintain (extern_example True 1 3 rebound_lease_example) after_dhcp_example)) =
       [Dhcp_checkLease]"
    using t3 [THEN conjunct2, THEN conjunct2] c3 by simp
  have d3: "dnsServerAddress (snd (maintain (extern_example True 1 3 rebound_lease_example)
        after_dhcp_example)) = IPAddress 8 8 8 8"
    using t3 [THEN conjunct2, THEN conjunct2] c3 after_dhcp_example_dns by simp
  from after_dhcp_example_dhcp k4 n4 r4 w4 d4 r3 a3 d3 show ?thesis by blast
qed

text \<open>
  C5: after any sequence of calls from construction that contains no DHCP bring-up, no
  negotiator exists, and \<open>maintain()\<close> returns the no-lease code and leaves the manager
  as it was: it records no call at all, so no chip-driver call and no bus acquisition.
\<close>

theorem maintain_without_negotiator:
  assumes "\<not> list_ex is_begin_dhcp cs"
  shows "dhcp (run cs (EthernetClass_ctor c)) = None
   \<and> maintain x (run cs (EthernetClass_ctor c)) =
       (DHCP_CHECK_NONE x, run cs (EthernetClass_ctor c))
   \<and> added (run cs (EthernetClass_ctor c)) (snd (maintain x (run cs (EthernetClass_ctor c)))) = []"
proof -
  have n: "dhcp (run cs (EthernetClass_ctor c)) = None"
    using assms by (simp add: run_dhcp_None_iff EthernetClass_ctor_def)
  then have m: "maintain x (run cs (EthernetClass_ctor c)) =
       (DHCP_CHECK_NONE x, run cs (EthernetClass_ctor c))"
    by (rule maintain_None)
  from n m show ?thesis by (simp add: added_def)
qed

text \<open>A static bring-up, a setter and an earlier \<open>maintain()\<close>, then \<open>maintain()\<close>.\<close>

theorem maintain_without_negotiator_witness:
  "\<not> list_ex is_begin_dhcp
       [Call_begin_ip (extern_example True 1 0 lease_example) mac_example (IPAddress 192 168 1 50),
        Call_setLocalIP (IPAddress 192 168 1 51), Call_maintain (extern_example True 1 4 lease_example)]
   \<and> maintain (extern_example True 1 4 lease_example)
       (run [Call_begin_ip (extern_example True 1 0 lease_example) mac_example (IPAddress 192 168 1 50),
             Call_setLocalIP (IPAddress 192 168 1 51), Call_maintain (extern_example True 1 4 lease_example)]
          (EthernetClass_ctor (chip_example 51))) =
       (0, run [Call_begin_ip (extern_example True 1 0 lease_example) mac_example (IPAddress 192 168 1 50),
             Call_setLocalIP (IPAddress 192 168 1 51), Call_maintain (extern_example True 1 4 lease_example)]
          (EthernetClass_ctor (chip_example 51)))"
proof -
  have h: "\<not> list_ex is_begin_dhcp
       [Call_begin_ip (extern_example True 1 0 lease_example) mac_example (IPAddress 192 168 1 50),
        Call_setLocalIP (IPAddress 192 168 1 51), Call_maintain (extern_example True 1 4 lease_example)]"
    by simp
  have z: "DHCP_CHECK_NONE (extern_example True 1 4 lease_example) = 0"
    by (simp add: extern_example_def)
  from maintain_without_negotiator [OF h, of "chip_example 51" "extern_example True 1 4 lease_example"] h z
  show ?thesis by simp
qed

section \<open>Failure of chip initialisation\<close>

text \<open>
  C6: if chip initialisation fails, the DHCP bring-up returns 0 and the fully explicit
  static bring-up returns with no effect of its own: in both, the chip-initialisation
  call is the last call recorded (the DHCP path has allocated the negotiator before it,
  if there was none), so no bus acquisition and no register write is made, and the
  cached DNS address is unchanged; the chip is as initialisation left it.
\<close>

theorem begin_init_failure:
  assumes "\<not> fst (ext_init x (w5100 s))"
  shows "fst (begin_dhcp x m t r s) = 0
   \<and> added s (snd (begin_dhcp x m t r s)) =
       (case dhcp s of None \<Rightarrow> [Dhcp_new (heap_next s)] | Some pd \<Rightarrow> []) @ [Chip_init]
   \<and> filter is_bus_call (added s (snd (begin_dhcp x m t r s))) = []
   \<and> filter is_register_write (added s (snd (begin_dhcp x m t r s))) = []
   \<and> w5100 (snd (begin_dhcp x m t r s)) = snd (ext_init x (w5100 s))
   \<and> dnsServerAddress (snd (begin_dhcp x m t r s)) = dnsServerAddress s
   \<and> begin_subnet x m ip dns gw sn s =
       s\<lparr>w5100 := snd (ext_init x (w5100 s)), calls := calls s @ [Chip_init]\<rparr>
   \<and> added s (begin_subnet x m ip dns gw sn s) = [Chip_init]
   \<and> filter is_bus_call (added s (begin_subnet x m ip dns gw sn s)) = []
   \<and> filter is_register_write (added s (begin_subnet x m ip dns gw sn s)) = []"
proof -
  have r: "fst (begin_dhcp x m t r s) = 0"
    using assms by (simp add: begin_dhcp_def ensure_dhcp_def collaborator_defs Let_def
        split_beta split: option.splits)
  have c: "calls (snd (begin_dhcp x m t r s)) =
       calls s @ (case dhcp s of None \<Rightarrow> [Dhcp_new (heap_next s)] | Some pd \<Rightarrow> []) @ [Chip_init]"
    using assms by (simp add: begin_dhcp_def ensure_dhcp_def collaborator_defs Let_def
        split_beta split: option.splits)
  have a: "added s (snd (begin_dhcp x m t r s)) =
       (case dhcp s of None \<Rightarrow> [Dhcp_new (heap_next s)] | Some pd \<Rightarrow> []) @ [Chip_init]"
    using c by (rule added_append)
  have b: "filter is_bus_call (added s (snd (begin_dhcp x m t r s))) = []"
    unfolding a by (simp split: option.splits)
  have w: "filter is_register_write (added s (snd (begin_dhcp x m t r s))) = []"
    unfolding a by (simp split: option.splits)
  have ch: "w5100 (snd (begin_dhcp x m t r s)) = snd (ext_init x (w5100 s))"
    using assms by (simp add: begin_dhcp_def ensure_dhcp_def collaborator_defs Let_def
        split_beta split: option.splits)
  have dn: "dnsServerAddress (snd (begin_dhcp x m t r s)) = dnsServerAddress s"
    using assms by (simp add: begin_dhcp_def ensure_dhcp_def collaborator_defs Let_def
        split_beta split: option.splits)
  have st: "begin_subnet x m ip dns gw sn s =
       s\<lparr>w5100 := snd (ext_init x (w5100 s)), calls := calls s @ [Chip_init]\<rparr>"
    using assms by (simp add: begin_subnet_def collaborator_defs Let_def split_beta)
  have sa: "added s (begin_subnet x m ip dns gw sn s) = [Chip_init]"
    unfolding st by (simp add: added_def)
  from r a b w ch dn st sa show ?thesis by simp
qed

text \<open>Both paths from construction, with a chip that does not answer.\<close>

theorem begin_init_failure_witness:
  "\<not> fst (ext_init (extern_example False 1 0 lease_example)
            (w5100 (EthernetClass_ctor (chip_example 51))))
   \<and> fst (begin_dhcp (extern_example False 1 0 lease_example) mac_example 60000 4000
        (EthernetClass_ctor (chip_example 51))) = 0
   \<and> added (EthernetClass_ctor (chip_example 51))
        (snd (begin_dhcp (extern_example False 1 0 lease_example) mac_example 60000 4000
          (EthernetClass_ctor (chip_example 51)))) = [Dhcp_new 0, Chip_init]
   \<and> added (EthernetClass_ctor (chip_example 51))
        (begin_subnet (extern_example False 1 0 lease_example) mac_example
          (IPAddress 192 168 1 50) (IPAddress 192 168 1 1) (IPAddress 192 168 1 1)
          (IPAddress 255 255 255 0) (EthernetClass_ctor (chip_example 51))) = [Chip_init]"
proof -
  have h: "\<not> fst (ext_init (extern_example False 1 0 lease_example)
            (w5100 (EthernetClass_ctor (chip_example 51))))"
    by (simp add: example_defs)
  have d: "dhcp (EthernetClass_ctor (chip_example 51)) = None"
    "heap_next (EthernetClass_ctor (chip_example 51)) = 0"
    by (simp_all add: EthernetClass_ctor_def)
  note t = begin_init_failure [OF h, of mac_example 60000 4000
      "IPAddress 192 168 1 50" "IPAddress 192 168 1 1" "IPAddress 192 168 1 1"
      "IPAddress 255 255 255 0"]
  have 1: "fst (begin_dhcp (extern_example False 1 0 lease_example) mac_example 60000 4000
        (EthernetClass_ctor (chip_example 51))) = 0"
    using t by blast
  have 2: "added (EthernetClass_ctor (chip_example 51))
        (snd (begin_dhcp (extern_example False 1 0 lease_example) mac_example 60000 4000
          (EthernetClass_ctor (chip_example 51)))) = [Dhcp_new 0, Chip_init]"
    using t [THEN conjunct2, THEN conjunct1] d by simp
  have 3: "added (EthernetClass_ctor (chip_example 51))
        (begin_subnet (extern_example False 1 0 lease_example) mac_example
          (IPAddress 192 168 1 50) (IPAddress 192 168 1 1) (IPAddress 192 168 1 1)
          (IPAddress 255 255 255 0) (EthernetClass_ctor (chip_example 51))) = [Chip_init]"
    using t by blast
  from h 1 2 3 show ?thesis by blast
qed

section \<open>Bus discipline\<close>

text \<open>
  C7: each of \<open>MACAddress\<close>, \<open>localIP\<close>, \<open>subnetMask\<close>, \<open>gatewayIP\<close>, \<open>setMACAddress\<close>,
  \<open>setLocalIP\<close>, \<open>setSubnetMask\<close>, \<open>setGatewayIP\<close>, \<open>setRetransmissionTimeout\<close> and
  \<open>setRetransmissionCount\<close> records exactly three calls: a bus acquisition, one
  chip-driver call, the bus release. So no acquisition is left open when the call
  returns; each of these functions has a single path to its return.
\<close>

theorem accessors_one_transaction:
  "calls (snd (MACAddress s)) =
     calls s @ [SPI_beginTransaction, Chip_getMACAddress, SPI_endTransaction]
   \<and> calls (snd (localIP s)) =
     calls s @ [SPI_beginTransaction, Chip_getIPAddress, SPI_endTransaction]
   \<and> calls (snd (subnetMask s)) =
     calls s @ [SPI_beginTransaction, Chip_getSubnetMask, SPI_endTransaction]
   \<and> calls (snd (gatewayIP s)) =
     calls s @ [SPI_beginTransaction, Chip_getGatewayIp, SPI_endTransaction]
   \<and> calls (setMACAddress m s) =
     calls s @ [SPI_beginTransaction, Chip_setMACAddress m, SPI_endTransaction]
   \<and> calls (setLocalIP a s) =
     calls s @ [SPI_beginTransaction, Chip_setIPAddress a, SPI_endTransaction]
   \<and> calls (setSubnetMask a s) =
     calls s @ [SPI_beginTransaction, Chip_setSubnetMask a, SPI_endTransaction]
   \<and> calls (setGatewayIP a s) =
     calls s @ [SPI_beginTransaction, Chip_setGatewayIp a, SPI_endTransaction]
   \<and> calls (setRetransmissionTimeout t s) =
     calls s @ [SPI_beginTransaction,
                Chip_setRetransmissionTime ((if t > 6553 then 6553 else t) * 10),
                SPI_endTransaction]
   \<and> calls (setRetransmissionCount n s) =
     calls s @ [SPI_beginTransaction, Chip_setRetransmissionCount n, SPI_endTransaction]
   \<and> (is_accessor c \<longrightarrow>
        one_transaction (added s (invoke c s))
        \<and> bus_depth (calls (invoke c s)) = bus_depth (calls s))"
  using accessor_calls accessor_invoke [of c s] by blast

theorem accessors_one_transaction_witness:
  "is_accessor (Call_setRetransmissionTimeout 7000)
   \<and> one_transaction (added after_dhcp_example
        (invoke (Call_setRetransmissionTimeout 7000) after_dhcp_example))
   \<and> bus_depth (calls (invoke (Call_setRetransmissionTimeout 7000) after_dhcp_example)) =
       bus_depth (calls after_dhcp_example)"
proof -
  have h: "is_accessor (Call_setRetransmissionTimeout 7000)" by simp
  from h accessors_one_transaction [of after_dhcp_example mac_example "IPAddress 0 0 0 0"
      0 0 "Call_setRetransmissionTimeout 7000"]
  show ?thesis by blast
qed

text \<open>
  C8: in every execution of the DHCP bring-up, no bus acquisition of the call is open
  when \<open>beginWithDHCP\<close> is invoked. When chip initialisation succeeds the calls are:
  the acquisition around the writes of the hardware address and the zero address, its
  release, then \<open>beginWithDHCP\<close>, and only after it, if it answered 1, a second
  acquisition around the writes of the negotiated addresses. (The negotiator's address
  getters are read inside that second acquisition; they are not delegations.)
\<close>

theorem begin_dhcp_bus_free_at_delegation:
  "free_at is_delegation 0 (added s (snd (begin_dhcp x m t r s)))
   \<and> (ext_init x (w5100 s) = (True, c1)
      \<and> ext_beginWithDHCP x m t r
          (case dhcp s of None \<Rightarrow> ext_new_DhcpClass x | Some (p, d) \<Rightarrow> d)
          (c1\<lparr>shar := m, sipr := IPAddress 0 0 0 0\<rparr>) = (ret, d', c2) \<longrightarrow>
      added s (snd (begin_dhcp x m t r s)) =
        (case dhcp s of None \<Rightarrow> [Dhcp_new (heap_next s)] | Some pd \<Rightarrow> []) @
        [Chip_init, SPI_beginTransaction, Chip_setMACAddress m,
         Chip_setIPAddress (IPAddress 0 0 0 0), SPI_endTransaction,
         Dhcp_beginWithDHCP m t r] @
        (if ret = 1 then
           [SPI_beginTransaction, Dhcp_getLocalIp, Chip_setIPAddress (dhcpLocalIp d'),
            Dhcp_getGatewayIp, Chip_setGatewayIp (dhcpGatewayIp d'),
            Dhcp_getSubnetMask, Chip_setSubnetMask (dhcpSubnetMask d'),
            SPI_endTransaction, Dhcp_getDnsServerIp, Sys_micros,
            Eth_socketPortRand (ext_micros x)]
         else []))"
proof -
  obtain ok k1 where i: "ext_init x (w5100 s) = (ok, k1)" by (cases "ext_init x (w5100 s)")
  obtain ret1 e1 k2 where b: "ext_beginWithDHCP x m t r
      (case dhcp s of None \<Rightarrow> ext_new_DhcpClass x | Some (p, d) \<Rightarrow> d)
      (k1\<lparr>shar := m, sipr := IPAddress 0 0 0 0\<rparr>) = (ret1, e1, k2)"
    using prod_cases3 by blast
  note a = added_append [OF begin_dhcp_calls [OF i b]]
  have f: "free_at is_delegation 0 (added s (snd (begin_dhcp x m t r s)))"
    unfolding a by (cases "dhcp s") simp_all
  have e: "ext_init x (w5100 s) = (True, c1)
      \<and> ext_beginWithDHCP x m t r
          (case dhcp s of None \<Rightarrow> ext_new_DhcpClass x | Some (p, d) \<Rightarrow> d)
          (c1\<lparr>shar := m, sipr := IPAddress 0 0 0 0\<rparr>) = (ret, d', c2) \<longrightarrow>
      added s (snd (begin_dhcp x m t r s)) =
        (case dhcp s of None \<Rightarrow> [Dhcp_new (heap_next s)] | Some pd \<Rightarrow> []) @
        [Chip_init, SPI_beginTransaction, Chip_setMACAddress m,
         Chip_setIPAddress (IPAddress 0 0 0 0), SPI_endTransaction,
         Dhcp_beginWithDHCP m t r] @
        (if ret = 1 then
           [SPI_beginTransaction, Dhcp_getLocalIp, Chip_setIPAddress (dhcpLocalIp d'),
            Dhcp_getGatewayIp, Chip_setGatewayIp (dhcpGatewayIp d'),
            Dhcp_getSubnetMask, Chip_setSubnetMask (dhcpSubnetMask d'),
            SPI_endTransaction, Dhcp_getDnsServerIp, Sys_micros,
            Eth_socketPortRand (ext_micros x)]
         else [])"
  proof
    assume h: "ext_init x (w5100 s) = (True, c1)
      \<and> ext_beginWithDHCP x m t r
          (case dhcp s of None \<Rightarrow> ext_new_DhcpClass x | Some (p, d) \<Rightarrow> d)
          (c1\<lparr>shar := m, sipr := IPAddress 0 0 0 0\<rparr>) = (ret, d', c2)"
    from h have i': "ext_init x (w5100 s) = (True, c1)" by blast
    from h have b': "ext_beginWithDHCP x m t r
          (case dhcp s of None \<Rightarrow> ext_new_DhcpClass x | Some (p, d) \<Rightarrow> d)
          (c1\<lparr>shar := m, sipr := IPAddress 0 0 0 0\<rparr>) = (ret, d', c2)" by blast
    show "added s (snd (begin_dhcp x m t r s)) =
        (case dhcp s of None \<Rightarrow> [Dhcp_new (heap_next s)] | Some pd \<Rightarrow> []) @
        [Chip_init, SPI_beginTransaction, Chip_setMACAddress m,
         Chip_setIPAddress (IPAddress 0 0 0 0), SPI_endTransaction,
         Dhcp_beginWithDHCP m t r] @
        (if ret = 1 then
           [SPI_beginTransaction, Dhcp_getLocalIp, Chip_setIPAddress (dhcpLocalIp d'),
            Dhcp_getGatewayIp, Chip_setGatewayIp (dhcpGatewayIp d'),
            Dhcp_getSubnetMask, Chip_setSubnetMask (dhcpSubnetMask d'),
            SPI_endTransaction, Dhcp_getDnsServerIp, Sys_micros,
            Eth_socketPortRand (ext_micros x)]
         else [])"
      unfolding added_append [OF begin_dhcp_calls [OF i' b']] by simp
  qed
  from f e show ?thesis by blast
qed

theorem begin_dhcp_bus_free_at_delegation_witness:
  "ext_init (extern_example True 1 0 lease_example) (w5100 (EthernetClass_ctor (chip_example 51)))
     = (True, chip_example 51)
   \<and> ext_beginWithDHCP (extern_example True 1 0 lease_example) mac_example 60000 4000
       (case dhcp (EthernetClass_ctor (chip_example 51)) of
          None \<Rightarrow> ext_new_DhcpClass (extern_example True 1 0 lease_example)
        | Some (p, d) \<Rightarrow> d)
       ((chip_example 51)\<lparr>shar := mac_example, sipr := IPAddress 0 0 0 0\<rparr>)
     = (1, lease_example, (chip_example 51)\<lparr>shar := mac_example, sipr := IPAddress 0 0 0 0\<rparr>)
   \<and> added (EthernetClass_ctor (chip_example 51))
       (snd (begin_dhcp (extern_example True 1 0 lease_example) mac_example 60000 4000
          (EthernetClass_ctor (chip_example 51)))) =
       [Dhcp_new 0, Chip_init, SPI_beginTransaction, Chip_setMACAddress mac_example,
        Chip_setIPAddress (IPAddress 0 0 0 0), SPI_endTransaction,
        Dhcp_beginWithDHCP mac_example 60000 4000,
        SPI_beginTransaction, Dhcp_getLocalIp, Chip_setIPAddress (IPAddress 10 0 0 5),
        Dhcp_getGatewayIp, Chip_setGatewayIp (IPAddress 10 0 0 1),
        Dhcp_getSubnetMask, Chip_setSubnetMask (IPAddress 255 255 255 0),
        SPI_endTransaction, Dhcp_getDnsServerIp, Sys_micros, Eth_socketPortRand 123456]
   \<and> free_at is_delegation 0
       (added (EthernetClass_ctor (chip_example 51))
         (snd (begin_dhcp (extern_example True 1 0 lease_example) mac_example 60000 4000
            (EthernetClass_ctor (chip_example 51)))))"
proof -
  have i: "ext_init (extern_example True 1 0 lease_example)
      (w5100 (EthernetClass_ctor (chip_example 51))) = (True, chip_example 51)"
    by (simp add: extern_example_def EthernetClass_ctor_def)
  have b: "ext_beginWithDHCP (extern_example True 1 0 lease_example) mac_example 60000 4000
       (case dhcp (EthernetClass_ctor (chip_example 51)) of
          None \<Rightarrow> ext_new_DhcpClass (extern_example True 1 0 lease_example)
        | Some (p, d) \<Rightarrow> d)
       ((chip_example 51)\<lparr>shar := mac_example, sipr := IPAddress 0 0 0 0\<rparr>)
     = (1, lease_example, (chip_example 51)\<lparr>shar := mac_example, sipr := IPAddress 0 0 0 0\<rparr>)"
    by (simp add: extern_example_def)
  note t = begin_dhcp_bus_free_at_delegation [of "EthernetClass_ctor (chip_example 51)"
      "extern_example True 1 0 lease_example" mac_example 60000 4000 "chip_example 51"
      1 lease_example "(chip_example 51)\<lparr>shar := mac_example, sipr := IPAddress 0 0 0 0\<rparr>"]
  have f: "free_at is_delegation 0
       (added (EthernetClass_ctor (chip_example 51))
         (snd (begin_dhcp (extern_example True 1 0 lease_example) mac_example 60000 4000
            (EthernetClass_ctor (chip_example 51)))))"
    using t by blast
  have a: "added (EthernetClass_ctor (chip_example 51))
       (snd (begin_dhcp (extern_example True 1 0 lease_example) mac_example 60000 4000
          (EthernetClass_ctor (chip_example 51)))) =
       [Dhcp_new 0, Chip_init, SPI_beginTransaction, Chip_setMACAddress mac_example,
        Chip_setIPAddress (IPAddress 0 0 0 0), SPI_endTransaction,
        Dhcp_beginWithDHCP mac_example 60000 4000,
        SPI_beginTransaction, Dhcp_getLocalIp, Chip_setIPAddress (IPAddress 10 0 0 5),
        Dhcp_getGatewayIp, Chip_setGatewayIp (IPAddress 10 0 0 1),
        Dhcp_getSubnetMask, Chip_setSubnetMask (IPAddress 255 255 255 0),
        SPI_endTransaction, Dhcp_getDnsServerIp, Sys_micros, Eth_socketPortRand 123456]"
    using t [THEN conjunct2, THEN mp, OF conjI, OF i b]
    by (simp add: EthernetClass_ctor_def lease_example_def extern_example_def)
  from i b a f show ?thesis by blast
qed

section \<open>Lifetime of the negotiator\<close>

text \<open>
  C9: over any sequence of calls from construction, the negotiator is allocated once if
  the sequence contains a DHCP bring-up and never otherwise, and it is never deleted; a
  negotiator exists exactly when a DHCP bring-up has been called. The DHCP bring-up
  that finds no negotiator allocates it and runs on the newly constructed instance;
  once the pointer holds an instance, every later sequence of calls keeps the same
  instance behind it and records no allocation and no deallocation. A later DHCP
  bring-up runs on that instance as it is: it returns what the negotiation answers on
  the existing negotiator state and leaves behind the pointer the state that this
  negotiation produced from it, or the existing state untouched when chip
  initialisation fails. \<open>maintain()\<close> leaves the state its lease check produced from the
  existing one, and no other member function changes the negotiator. The destructor
  deletes the instance if there is one.
\<close>

theorem negotiator_created_once:
  "length (filter is_new (calls (run cs (EthernetClass_ctor c)))) =
     (if list_ex is_begin_dhcp cs then 1 else 0)
   \<and> filter is_delete (calls (run cs (EthernetClass_ctor c))) = []
   \<and> (dhcp (run cs (EthernetClass_ctor c)) = None) = (\<not> list_ex is_begin_dhcp cs)
   \<and> (dhcp s = None \<longrightarrow>
        (\<exists>d'. dhcp (snd (begin_dhcp x m t r s)) = Some (heap_next s, d'))
        \<and> filter is_new (added s (snd (begin_dhcp x m t r s))) = [Dhcp_new (heap_next s)])
   \<and> (dhcp s = Some (p, d) \<longrightarrow>
        (\<exists>d'. dhcp (run cs s) = Some (p, d'))
        \<and> filter is_new (added s (run cs s)) = []
        \<and> filter is_delete (added s (run cs s)) = [])
   \<and> EthernetClass_dtor s =
       calls s @ (case dhcp s of None \<Rightarrow> [] | Some (p, d) \<Rightarrow> [Dhcp_delete p])
   \<and> (dhcp s = None \<longrightarrow>
        dhcp (snd (begin_dhcp x m t r s)) =
          Some (heap_next s,
                if fst (ext_init x (w5100 s))
                then fst (snd (ext_beginWithDHCP x m t r (ext_new_DhcpClass x)
                       ((snd (ext_init x (w5100 s)))\<lparr>shar := m, sipr := IPAddress 0 0 0 0\<rparr>)))
                else ext_new_DhcpClass x))
   \<and> (dhcp s = Some (p, d) \<longrightarrow>
        fst (begin_dhcp x m t r s) =
          (if fst (ext_init x (w5100 s))
           then fst (ext_beginWithDHCP x m t r d
                  ((snd (ext_init x (w5100 s)))\<lparr>shar := m, sipr := IPAddress 0 0 0 0\<rparr>))
           else 0)
        \<and> dhcp (snd (begin_dhcp x m t r s)) =
          Some (p,
                if fst (ext_init x (w5100 s))
                then fst (snd (ext_beginWithDHCP x m t r d
                       ((snd (ext_init x (w5100 s)))\<lparr>shar := m, sipr := IPAddress 0 0 0 0\<rparr>)))
                else d))
   \<and> (dhcp s = Some (p, d) \<longrightarrow>
        dhcp (snd (maintain x s)) = Some (p, fst (snd (ext_checkLease x d (w5100 s)))))
   \<and> (\<not> list_ex is_begin_dhcp cs \<and> \<not> list_ex is_maintain cs \<longrightarrow>
        dhcp (run cs s) = dhcp s)"
proof -
  have 1: "length (filter is_new (calls (run cs (EthernetClass_ctor c)))) =
     (if list_ex is_begin_dhcp cs then 1 else 0)"
    by (simp add: run_new EthernetClass_ctor_def)
  have 2: "filter is_delete (calls (run cs (EthernetClass_ctor c))) = []"
    by (simp add: run_delete EthernetClass_ctor_def)
  have 3: "(dhcp (run cs (EthernetClass_ctor c)) = None) = (\<not> list_ex is_begin_dhcp cs)"
    by (simp add: run_dhcp_None_iff EthernetClass_ctor_def)
  have 4: "dhcp s = None \<longrightarrow>
        (\<exists>d'. dhcp (snd (begin_dhcp x m t r s)) = Some (heap_next s, d'))
        \<and> filter is_new (added s (snd (begin_dhcp x m t r s))) = [Dhcp_new (heap_next s)]"
  proof
    assume n: "dhcp s = None"
    have a: "\<exists>d'. dhcp (snd (begin_dhcp x m t r s)) = Some (heap_next s, d')"
      using begin_dhcp_dhcp [of x m t r s] n by simp
    obtain es where e: "calls (snd (begin_dhcp x m t r s)) = calls s @ es"
      using invoke_calls [of "Call_begin_dhcp x m t r" s] by auto
    have "filter is_new (calls (snd (begin_dhcp x m t r s))) =
        filter is_new (calls s) @ [Dhcp_new (heap_next s)]"
      using n begin_dhcp_filter [of is_new x m t r s] by simp
    then have "filter is_new es = [Dhcp_new (heap_next s)]" unfolding e by simp
    moreover have "added s (snd (begin_dhcp x m t r s)) = es"
      using e by (rule added_append)
    ultimately show "(\<exists>d'. dhcp (snd (begin_dhcp x m t r s)) = Some (heap_next s, d'))
        \<and> filter is_new (added s (snd (begin_dhcp x m t r s))) = [Dhcp_new (heap_next s)]"
      using a by simp
  qed
  have 5: "dhcp s = Some (p, d) \<longrightarrow>
        (\<exists>d'. dhcp (run cs s) = Some (p, d'))
        \<and> filter is_new (added s (run cs s)) = []
        \<and> filter is_delete (added s (run cs s)) = []"
    using run_dhcp_Some [of s p d cs] run_added_filter_pointer [of s p d cs] by blast
  have 6: "EthernetClass_dtor s =
       calls s @ (case dhcp s of None \<Rightarrow> [] | Some (p, d) \<Rightarrow> [Dhcp_delete p])"
    by (simp add: EthernetClass_dtor_def split: option.splits)
  have 7: "dhcp s = None \<longrightarrow>
        dhcp (snd (begin_dhcp x m t r s)) =
          Some (heap_next s,
                if fst (ext_init x (w5100 s))
                then fst (snd (ext_beginWithDHCP x m t r (ext_new_DhcpClass x)
                       ((snd (ext_init x (w5100 s)))\<lparr>shar := m, sipr := IPAddress 0 0 0 0\<rparr>)))
                else ext_new_DhcpClass x)"
    by (simp add: begin_dhcp_state_exact)
  have 8: "dhcp s = Some (p, d) \<longrightarrow>
        fst (begin_dhcp x m t r s) =
          (if fst (ext_init x (w5100 s))
           then fst (ext_beginWithDHCP x m t r d
                  ((snd (ext_init x (w5100 s)))\<lparr>shar := m, sipr := IPAddress 0 0 0 0\<rparr>))
           else 0)
        \<and> dhcp (snd (begin_dhcp x m t r s)) =
          Some (p,
                if fst (ext_init x (w5100 s))
                then fst (snd (ext_beginWithDHCP x m t r d
                       ((snd (ext_init x (w5100 s)))\<lparr>shar := m, sipr := IPAddress 0 0 0 0\<rparr>)))
                else d)
"
    by (simp add: begin_dhcp_state_exact begin_dhcp_result_exact)
  have 9: "dhcp s = Some (p, d) \<longrightarrow>
        dhcp (snd (maintain x s)) = Some (p, fst (snd (ext_checkLease x d (w5100 s))))"
    by (simp add: maintain_state_exact)
  have 10: "\<not> list_ex is_begin_dhcp cs \<and> \<not> list_ex is_maintain cs \<longrightarrow>
        dhcp (run cs s) = dhcp s"
    by (simp add: run_other_dhcp)
  from 1 2 3 4 5 6 7 8 9 10 show ?thesis by blast
qed

text \<open>The first DHCP bring-up allocates instance 0 and leaves it holding the lease; a
  failed and a successful DHCP bring-up after it keep instance 0 and allocate nothing.
  With a negotiation that answers 1 only on a negotiator already holding 10.0.0.5, a
  later bring-up answers 1 and keeps the lease: it ran on the existing instance, not on
  a new one.\<close>

theorem negotiator_created_once_witness:
  "dhcp (EthernetClass_ctor (chip_example 51)) = None
   \<and> filter is_new (added (EthernetClass_ctor (chip_example 51))
        (snd (begin_dhcp (extern_example True 1 0 lease_example) mac_example 60000 4000
               (EthernetClass_ctor (chip_example 51))))) = [Dhcp_new 0]
   \<and> dhcp (snd (begin_dhcp (extern_example True 1 0 lease_example) mac_example 60000 4000
               (EthernetClass_ctor (chip_example 51)))) = Some (0, lease_example)
   \<and> dhcp after_dhcp_example = Some (0, lease_example)
   \<and> (\<exists>d'. dhcp (run [Call_begin_dhcp (extern_example False 0 0 lease_example) mac_example 60000 4000,
                      Call_begin_dhcp (extern_example True 1 0 rebound_lease_example) mac_example 60000 4000]
                  after_dhcp_example) = Some (0, d'))
   \<and> filter is_new (added after_dhcp_example
        (run [Call_begin_dhcp (extern_example False 0 0 lease_example) mac_example 60000 4000,
              Call_begin_dhcp (extern_example True 1 0 rebound_lease_example) mac_example 60000 4000]
           after_dhcp_example)) = []
   \<and> fst (begin_dhcp (extern_reuse_example True) mac_example 60000 4000 after_dhcp_example) = 1
   \<and> dhcp (snd (begin_dhcp (extern_reuse_example True) mac_example 60000 4000
        after_dhcp_example)) = Some (0, lease_example)
   \<and> fst (begin_dhcp (extern_reuse_example False) mac_example 60000 4000 after_dhcp_example) = 0
   \<and> dhcp (snd (begin_dhcp (extern_reuse_example False) mac_example 60000 4000
        after_dhcp_example)) = Some (0, lease_example)
   \<and> dhcp (snd (maintain (extern_reuse_example True) after_dhcp_example)) =
       Some (0, lease_example)
   \<and> \<not> list_ex is_begin_dhcp [Call_setLocalIP (IPAddress 10 0 0 7), Call_localIP]
   \<and> \<not> list_ex is_maintain [Call_setLocalIP (IPAddress 10 0 0 7), Call_localIP]
   \<and> dhcp (run [Call_setLocalIP (IPAddress 10 0 0 7), Call_localIP] after_dhcp_example) =
       Some (0, lease_example)"
proof -
  have n: "dhcp (EthernetClass_ctor (chip_example 51)) = None"
    "heap_next (EthernetClass_ctor (chip_example 51)) = 0"
    by (simp_all add: EthernetClass_ctor_def)
  note t1 = negotiator_created_once [of "[]" "chip_example 51"
      "EthernetClass_ctor (chip_example 51)" "extern_example True 1 0 lease_example"
      mac_example 60000 4000 0 lease_example]
  note t1_4 = t1 [THEN conjunct2, THEN conjunct2, THEN conjunct2, THEN conjunct1,
      THEN mp, OF n(1)]
  note t1_7 = t1 [THEN conjunct2, THEN conjunct2, THEN conjunct2, THEN conjunct2,
      THEN conjunct2, THEN conjunct2, THEN conjunct1, THEN mp, OF n(1)]
  have a: "filter is_new (added (EthernetClass_ctor (chip_example 51))
        (snd (begin_dhcp (extern_example True 1 0 lease_example) mac_example 60000 4000
               (EthernetClass_ctor (chip_example 51))))) = [Dhcp_new 0]"
    using t1_4 n(2) by simp
  have a': "dhcp (snd (begin_dhcp (extern_example True 1 0 lease_example) mac_example 60000 4000
               (EthernetClass_ctor (chip_example 51)))) = Some (0, lease_example)"
    using t1_7 n(2) by (simp add: extern_example_def)
  note t2 = negotiator_created_once [of
      "[Call_begin_dhcp (extern_example False 0 0 lease_example) mac_example 60000 4000,
        Call_begin_dhcp (extern_example True 1 0 rebound_lease_example) mac_example 60000 4000]"
      "chip_example 51" after_dhcp_example "extern_example True 1 0 lease_example"
      mac_example 60000 4000 0 lease_example]
  note t2_5 = t2 [THEN conjunct2, THEN conjunct2, THEN conjunct2, THEN conjunct2,
      THEN conjunct1, THEN mp, OF after_dhcp_example_dhcp]
  have b: "(\<exists>d'. dhcp (run [Call_begin_dhcp (extern_example False 0 0 lease_example) mac_example 60000 4000,
                      Call_begin_dhcp (extern_example True 1 0 rebound_lease_example) mac_example 60000 4000]
                  after_dhcp_example) = Some (0, d'))
   \<and> filter is_new (added after_dhcp_example
        (run [Call_begin_dhcp (extern_example False 0 0 lease_example) mac_example 60000 4000,
              Call_begin_dhcp (extern_example True 1 0 rebound_lease_example) mac_example 60000 4000]
           after_dhcp_example)) = []"
    using t2_5 by blast
  note t3 = negotiator_created_once [of
      "[Call_setLocalIP (IPAddress 10 0 0 7), Call_localIP]"
      "chip_example 51" after_dhcp_example "extern_reuse_example True"
      mac_example 60000 4000 0 lease_example]
  note t3_8 = t3 [THEN conjunct2, THEN conjunct2, THEN conjunct2, THEN conjunct2,
      THEN conjunct2, THEN conjunct2, THEN conjunct2, THEN conjunct1,
      THEN mp, OF after_dhcp_example_dhcp]
  note t3_9 = t3 [THEN conjunct2, THEN conjunct2, THEN conjunct2, THEN conjunct2,
      THEN conjunct2, THEN conjunct2, THEN conjunct2, THEN conjunct2, THEN conjunct1,
      THEN mp, OF after_dhcp_example_dhcp]
  note t3_10 = t3 [THEN conjunct2, THEN conjunct2, THEN conjunct2, THEN conjunct2,
      THEN conjunct2, THEN conjunct2, THEN conjunct2, THEN conjunct2, THEN conjunct2]
  have l: "dhcpLocalIp lease_example = IPAddress 10 0 0 5"
    by (simp add: lease_example_def)
  have c1: "fst (begin_dhcp (extern_reuse_example True) mac_example 60000 4000
        after_dhcp_example) = 1"
    using t3_8 [THEN conjunct1] l by (simp add: extern_reuse_example_def)
  have c2: "dhcp (snd (begin_dhcp (extern_reuse_example True) mac_example 60000 4000
        after_dhcp_example)) = Some (0, lease_example)"
    using t3_8 [THEN conjunct2] by (simp add: extern_reuse_example_def)
  have c3: "dhcp (snd (maintain (extern_reuse_example True) after_dhcp_example)) =
       Some (0, lease_example)"
    using t3_9 by (simp add: extern_reuse_example_def)
  have h10: "\<not> list_ex is_begin_dhcp [Call_setLocalIP (IPAddress 10 0 0 7), Call_localIP]"
    "\<not> list_ex is_maintain [Call_setLocalIP (IPAddress 10 0 0 7), Call_localIP]"
    by simp_all
  have c4: "dhcp (run [Call_setLocalIP (IPAddress 10 0 0 7), Call_localIP] after_dhcp_example) =
       Some (0, lease_example)"
    using t3_10 h10 after_dhcp_example_dhcp by simp
  note t4 = negotiator_created_once [of "[]" "chip_example 51" after_dhcp_example
      "extern_reuse_example False" mac_example 60000 4000 0 lease_example]
  note t4_8 = t4 [THEN conjunct2, THEN conjunct2, THEN conjunct2, THEN conjunct2,
      THEN conjunct2, THEN conjunct2, THEN conjunct2, THEN conjunct1,
      THEN mp, OF after_dhcp_example_dhcp]
  have e1: "fst (begin_dhcp (extern_reuse_example False) mac_example 60000 4000
        after_dhcp_example) = 0"
    using t4_8 [THEN conjunct1] by (simp add: extern_reuse_example_def)
  have e2: "dhcp (snd (begin_dhcp (extern_reuse_example False) mac_example 60000 4000
        after_dhcp_example)) = Some (0, lease_example)"
    using t4_8 [THEN conjunct2] by (simp add: extern_reuse_example_def)
  from n(1) a a' after_dhcp_example_dhcp b c1 c2 e1 e2 c3 h10 c4 show ?thesis by blast
qed

text \<open>
  C10: after any call of the DHCP bring-up, whatever chip initialisation and the
  negotiation answered, and after any further calls, a negotiator exists; so
  \<open>maintain()\<close> first calls the negotiator's lease check and returns the code it answers.
\<close>

theorem begin_dhcp_leaves_negotiator:
  "\<exists>p d. dhcp (run cs (snd (begin_dhcp x m t r s))) = Some (p, d)
     \<and> fst (maintain x' (run cs (snd (begin_dhcp x m t r s)))) =
         fst (ext_checkLease x' d (w5100 (run cs (snd (begin_dhcp x m t r s)))))
     \<and> (\<exists>es. added (run cs (snd (begin_dhcp x m t r s)))
               (snd (maintain x' (run cs (snd (begin_dhcp x m t r s))))) =
             Dhcp_checkLease # es)"
proof -
  obtain p0 d0 where b: "dhcp (snd (begin_dhcp x m t r s)) = Some (p0, d0)"
    using begin_dhcp_dhcp [of x m t r s] by blast
  obtain d where d: "dhcp (run cs (snd (begin_dhcp x m t r s))) = Some (p0, d)"
    using run_dhcp_Some [OF b] by blast
  obtain rc d' c' where
    k: "ext_checkLease x' d (w5100 (run cs (snd (begin_dhcp x m t r s)))) = (rc, d', c')"
    using prod_cases3 by blast
  have f: "fst (maintain x' (run cs (snd (begin_dhcp x m t r s)))) = rc"
    using d k by (simp add: maintain_def collaborator_defs Let_def split_beta)
  have "\<exists>es. added (run cs (snd (begin_dhcp x m t r s)))
               (snd (maintain x' (run cs (snd (begin_dhcp x m t r s))))) =
             Dhcp_checkLease # es"
    unfolding added_append [OF maintain_calls_Some [OF d k]] by blast
  with d f k show ?thesis by simp
qed

end
